theory Spec2Isabelle
  imports Main "HOL-Library.Word"
begin

unbundle bit_operations_syntax

section \<open>Platform types\<close>

text \<open>
  The unit under verification is \<^verbatim>\<open>TranslucentTB/win32.cpp\<close>: a facade over Win32
  calls. The operating system is not part of the program, so every Win32 function the
  facade calls is a field of the record \<open>OS\<close> below: an arbitrary answer for every
  argument. The facade's own, observable effects are collected in the record \<open>world\<close>:
  the process-wide cache \<^verbatim>\<open>win32::m_ExeLocation\<close>, the invocations of the error sink
  (\<^verbatim>\<open>ErrorHandle\<close>, \<^verbatim>\<open>LastErrorHandle\<close>), the Win32 calls made, in order, and the
  detached threads started. One field of \<open>OS\<close> is not a call: \<open>memory_past_end\<close> is
  what the process memory holds behind the terminator of a string, where an unchecked
  read may land.
\<close>

type_synonym DWORD = "32 word"
type_synonym UINT = "32 word"
type_synonym HRESULT = "32 word"
type_synonym wchar_t = "16 word"
type_synonym wstring = "wchar_t list"
type_synonym HGLOBAL = nat

text \<open>A wide literal \<^verbatim>\<open>L"..."\<close>: every character widened to a UTF-16 code unit.\<close>

definition L :: "string \<Rightarrow> wstring" where
  "L cs = map of_char cs"

text \<open>
  The answer of a Win32 call that reports failure through its return value:
  \<open>Inl e\<close> is a failed call after which \<^verbatim>\<open>GetLastError()\<close> is \<open>e\<close>, \<open>Inr v\<close> a
  successful call with output \<open>v\<close>.
\<close>

type_synonym 'a api = "DWORD + 'a"

subsection \<open>HRESULT (winerror.h)\<close>

definition S_OK :: HRESULT where
  "S_OK = 0"

definition SUCCEEDED :: "HRESULT \<Rightarrow> bool" where
  "SUCCEEDED hr = (0 \<le> sint hr)"

definition FAILED :: "HRESULT \<Rightarrow> bool" where
  "FAILED hr = (sint hr < 0)"

definition FACILITY_WIN32 :: "32 word" where
  "FACILITY_WIN32 = 7"

definition HRESULT_FROM_WIN32 :: "DWORD \<Rightarrow> HRESULT" where
  "HRESULT_FROM_WIN32 x =
     (if sint x \<le> 0 then x
      else (x AND 0x0000FFFF) OR push_bit 16 FACILITY_WIN32 OR 0x80000000)"

definition ERROR_FILE_NOT_FOUND :: DWORD where
  "ERROR_FILE_NOT_FOUND = 2"

definition ERROR_PATH_NOT_FOUND :: DWORD where
  "ERROR_PATH_NOT_FOUND = 3"

definition ERROR_OLD_WIN_VERSION :: DWORD where
  "ERROR_OLD_WIN_VERSION = 1150"

definition INVALID_FILE_ATTRIBUTES :: DWORD where
  "INVALID_FILE_ATTRIBUTES = 0xFFFFFFFF"

definition FILE_ATTRIBUTE_DIRECTORY :: DWORD where
  "FILE_ATTRIBUTE_DIRECTORY = 0x10"

subsection \<open>The error sink\<close>

datatype Level = Debug | Log | Error | Fatal

record sink_entry =
  code :: HRESULT
  level :: Level
  message :: string

subsection \<open>Structures handed to the operating system\<close>

record OSVERSIONINFOEX =
  dwMajorVersion :: DWORD
  dwMinorVersion :: DWORD
  dwBuildNumber :: DWORD

record SHELLEXECUTEINFO =
  lpVerb :: wstring
  lpFile :: wstring
  lpClass :: wstring

datatype PROCESS_MITIGATION_POLICY =
    ProcessASLRPolicy
  | ProcessDynamicCodePolicy
  | ProcessStrictHandleCheckPolicy
  | ProcessExtensionPointDisablePolicy
  | ProcessSignaturePolicy
  | ProcessImageLoadPolicy

record PROCESS_MITIGATION_ASLR_POLICY =
  EnableBottomUpRandomization :: bool
  EnableForceRelocateImages :: bool
  EnableHighEntropy :: bool
  DisallowStrippedImages :: bool

record PROCESS_MITIGATION_DYNAMIC_CODE_POLICY =
  ProhibitDynamicCode :: bool
  AllowThreadOptOut :: bool
  AllowRemoteDowngrade :: bool

record PROCESS_MITIGATION_STRICT_HANDLE_CHECK_POLICY =
  RaiseExceptionOnInvalidHandleReference :: bool
  HandleExceptionsPermanentlyEnabled :: bool

record PROCESS_MITIGATION_EXTENSION_POINT_DISABLE_POLICY =
  DisableExtensionPoints :: bool

record PROCESS_MITIGATION_BINARY_SIGNATURE_POLICY =
  MicrosoftSignedOnly :: bool
  StoreSignedOnly :: bool
  MitigationOptIn :: bool

record PROCESS_MITIGATION_IMAGE_LOAD_POLICY =
  NoRemoteImages :: bool
  NoLowMandatoryLabelImages :: bool
  PreferSystem32Images :: bool

text \<open>The buffer of \<^verbatim>\<open>SetProcessMitigationPolicy\<close>, one shape for each policy.\<close>

datatype policy_buffer =
    ASLR PROCESS_MITIGATION_ASLR_POLICY
  | DynamicCode PROCESS_MITIGATION_DYNAMIC_CODE_POLICY
  | StrictHandleCheck PROCESS_MITIGATION_STRICT_HANDLE_CHECK_POLICY
  | ExtensionPointDisable PROCESS_MITIGATION_EXTENSION_POINT_DISABLE_POLICY
  | Signature PROCESS_MITIGATION_BINARY_SIGNATURE_POLICY
  | ImageLoad PROCESS_MITIGATION_IMAGE_LOAD_POLICY

fun policy_of :: "policy_buffer \<Rightarrow> PROCESS_MITIGATION_POLICY" where
  "policy_of (ASLR _) = ProcessASLRPolicy"
| "policy_of (DynamicCode _) = ProcessDynamicCodePolicy"
| "policy_of (StrictHandleCheck _) = ProcessStrictHandleCheckPolicy"
| "policy_of (ExtensionPointDisable _) = ProcessExtensionPointDisablePolicy"
| "policy_of (Signature _) = ProcessSignaturePolicy"
| "policy_of (ImageLoad _) = ProcessImageLoadPolicy"

subsection \<open>The operating system and the observable state\<close>

record OS =
  QueryFullProcessImageName :: "(wstring \<times> DWORD) api"
  VerifyVersionInfo :: "OSVERSIONINFOEX \<Rightarrow> unit api"
  GetFileAttributes :: "wstring \<Rightarrow> DWORD \<times> DWORD"
  OpenClipboard :: "unit api"
  EmptyClipboard :: "unit api"
  GlobalAlloc :: "nat \<Rightarrow> HGLOBAL api"
  GlobalLock :: "HGLOBAL \<Rightarrow> unit api"
  SetClipboardData :: "HGLOBAL option \<Rightarrow> unit api"
  ShellExecuteEx :: "SHELLEXECUTEINFO \<Rightarrow> unit api"
  GetProcessMitigationPolicy :: "PROCESS_MITIGATION_ASLR_POLICY api"
  SetProcessMitigationPolicy :: "policy_buffer \<Rightarrow> unit api"
  GetVolumePathName :: "wstring \<Rightarrow> wstring api"
  GetDriveType :: "wstring \<Rightarrow> UINT"
  memory_past_end :: "wstring \<Rightarrow> nat \<Rightarrow> wchar_t"

datatype os_call =
    Call_QueryFullProcessImageName
  | Call_VerifyVersionInfo OSVERSIONINFOEX
  | Call_GetFileAttributes wstring
  | Call_OpenClipboard
  | Call_CloseClipboard
  | Call_EmptyClipboard
  | Call_GlobalAlloc nat
  | Call_GlobalLock HGLOBAL
  | Call_GlobalUnlock HGLOBAL
  | Call_GlobalFree HGLOBAL
  | Call_copy HGLOBAL wstring
  | Call_SetClipboardData "HGLOBAL option"
  | Call_ShellExecuteEx SHELLEXECUTEINFO
  | Call_GetProcessMitigationPolicy PROCESS_MITIGATION_POLICY
  | Call_SetProcessMitigationPolicy policy_buffer
  | Call_GetVolumePathName wstring
  | Call_GetDriveType wstring

text \<open>A detached recovery thread: what it captured by value.\<close>

record recovery_prompt =
  target :: wstring
  err :: DWORD

record world =
  m_ExeLocation :: wstring
  sink :: "sink_entry list"
  calls :: "os_call list"
  threads :: "recovery_prompt list"

definition called :: "os_call \<Rightarrow> world \<Rightarrow> world" where
  "called c s = s\<lparr>calls := calls s @ [c]\<rparr>"

text \<open>
  Modelled from the spec: \<^verbatim>\<open>ErrorHandle\<close> and \<^verbatim>\<open>LastErrorHandle\<close> are macros of
  \<^verbatim>\<open>ttberror.hpp\<close>, a header this unit includes. The spec describes the
  sink as accepting an error code, a severity and a message; an invocation is
  recorded as it is made. \<^verbatim>\<open>LastErrorHandle\<close> takes the code from
  \<^verbatim>\<open>GetLastError()\<close>, here the argument \<open>e\<close>.
\<close>

definition ErrorHandle :: "HRESULT \<Rightarrow> Level \<Rightarrow> string \<Rightarrow> world \<Rightarrow> world" where
  "ErrorHandle hr lvl msg s = s\<lparr>sink := sink s @ [\<lparr>code = hr, level = lvl, message = msg\<rparr>]\<rparr>"

definition LastErrorHandle :: "DWORD \<Rightarrow> Level \<Rightarrow> string \<Rightarrow> world \<Rightarrow> world" where
  "LastErrorHandle e lvl msg s = ErrorHandle (HRESULT_FROM_WIN32 e) lvl msg s"

section \<open>Process identity cache\<close>

text \<open>\<^verbatim>\<open>std::wstring::resize(n)\<close>: cut to \<open>n\<close> characters, or pad with null characters.\<close>

definition resize :: "nat \<Rightarrow> wstring \<Rightarrow> wstring" where
  "resize n xs = take n xs @ replicate (n - length xs) 0"

text \<open>
  \<^verbatim>\<open>GetProcessFileName(GetCurrentProcess())\<close>. On success the operating system
  answers with the buffer it filled and the number of characters it wrote.
\<close>

definition GetProcessFileName :: "OS \<Rightarrow> world \<Rightarrow> (wstring \<times> HRESULT) \<times> world" where
  "GetProcessFileName os s =
     (let s1 = called Call_QueryFullProcessImageName s in
      case QueryFullProcessImageName os of
        Inr (exeLocation, exeLocation_size) \<Rightarrow>
          ((resize (unat exeLocation_size) exeLocation, S_OK), s1)
      | Inl e \<Rightarrow> (([], HRESULT_FROM_WIN32 e), s1))"

definition GetExeLocation :: "OS \<Rightarrow> world \<Rightarrow> wstring \<times> world" where
  "GetExeLocation os s =
     (if m_ExeLocation s = [] then
        (case GetProcessFileName os s of
           ((loc, hr), s1) \<Rightarrow>
             (let s2 = (if SUCCEEDED hr then s1\<lparr>m_ExeLocation := loc\<rparr>
                        else ErrorHandle hr Fatal ''Failed to determine executable location!'' s1)
              in (m_ExeLocation s2, s2)))
      else (m_ExeLocation s, s))"

section \<open>Version and filesystem probes\<close>

text \<open>\<^verbatim>\<open>std::wstring::c_str()\<close> read as a C string: the characters before the first null.\<close>

definition c_str :: "wstring \<Rightarrow> wstring" where
  "c_str xs = takeWhile (\<lambda>c. c \<noteq> 0) xs"

text \<open>
  \<^verbatim>\<open>IsAtLeastBuild\<close>. The type mask and the condition mask are the same at every call
  (major, minor and build number, each compared with \<^verbatim>\<open>VER_GREATER_EQUAL\<close>), so the
  operating system's answer is taken as a function of the version structure.
\<close>

definition IsAtLeastBuild :: "OS \<Rightarrow> DWORD \<Rightarrow> world \<Rightarrow> bool \<times> world" where
  "IsAtLeastBuild os buildNumber s =
     (let versionInfo = \<lparr>dwMajorVersion = 10, dwMinorVersion = 0, dwBuildNumber = buildNumber\<rparr>;
          s1 = called (Call_VerifyVersionInfo versionInfo) s
      in case VerifyVersionInfo os versionInfo of
           Inr _ \<Rightarrow> (True, s1)
         | Inl error \<Rightarrow>
             (False,
              if error \<noteq> ERROR_OLD_WIN_VERSION
              then ErrorHandle (HRESULT_FROM_WIN32 error) Log ''Error obtaining version info.'' s1
              else s1))"

text \<open>
  \<^verbatim>\<open>GetFileAttributes\<close> answers with its return value and with the value
  \<^verbatim>\<open>GetLastError()\<close> has after the call.
\<close>

definition IsDirectory :: "OS \<Rightarrow> wstring \<Rightarrow> world \<Rightarrow> bool \<times> world" where
  "IsDirectory os directory s =
     (let s1 = called (Call_GetFileAttributes (c_str directory)) s
      in case GetFileAttributes os (c_str directory) of
           (attributes, error) \<Rightarrow>
             if attributes = INVALID_FILE_ATTRIBUTES then
               (False,
                if error \<noteq> ERROR_FILE_NOT_FOUND \<and> error \<noteq> ERROR_PATH_NOT_FOUND
                then ErrorHandle (HRESULT_FROM_WIN32 error) Debug
                       ''Failed to check if directory exists.'' s1
                else s1)
             else (attributes AND FILE_ATTRIBUTE_DIRECTORY \<noteq> 0, s1))"

definition FileExists :: "OS \<Rightarrow> wstring \<Rightarrow> world \<Rightarrow> bool \<times> world" where
  "FileExists os file s =
     (let s1 = called (Call_GetFileAttributes (c_str file)) s
      in case GetFileAttributes os (c_str file) of
           (attributes, error) \<Rightarrow>
             if attributes = INVALID_FILE_ATTRIBUTES then
               (False,
                if error \<noteq> ERROR_FILE_NOT_FOUND \<and> error \<noteq> ERROR_PATH_NOT_FOUND
                then ErrorHandle (HRESULT_FROM_WIN32 error) Log
                       ''Failed to check if file exists.'' s1
                else s1)
             else (\<not> (attributes AND FILE_ATTRIBUTE_DIRECTORY \<noteq> 0), s1))"

section \<open>Clipboard transfer\<close>

text \<open>
  Modelled from the spec: \<^verbatim>\<open>AutoFree::GlobalHandle\<close> (\<^verbatim>\<open>smart/autofree.hpp\<close>),
  \<^verbatim>\<open>AutoUnlock\<close> (\<^verbatim>\<open>smart/autounlock.hpp\<close>) and \<^verbatim>\<open>ClipboardContext\<close>
  (\<^verbatim>\<open>smart/clipboardcontext.hpp\<close>) are classes of headers this unit includes. After the spec,
  the clipboard context opens the clipboard and closes it when its scope ends; the
  global handle owns its allocation and frees it when its scope ends, unless it was
  detached before, which hands the raw handle out and leaves the wrapper empty; the
  lock is released when its scope ends. A wrapper is \<open>Some h\<close> while it owns \<open>h\<close>.
\<close>

type_synonym GlobalHandle = "HGLOBAL option"

definition detach :: "GlobalHandle \<Rightarrow> HGLOBAL option \<times> GlobalHandle" where
  "detach data = (data, None)"

definition free_GlobalHandle :: "GlobalHandle \<Rightarrow> world \<Rightarrow> world" where
  "free_GlobalHandle data s = (case data of None \<Rightarrow> s | Some h \<Rightarrow> called (Call_GlobalFree h) s)"

definition close_ClipboardContext :: "world \<Rightarrow> world" where
  "close_ClipboardContext s = called Call_CloseClipboard s"

text \<open>
  \<^verbatim>\<open>CopyToClipboard\<close>. Every \<^verbatim>\<open>return\<close> runs the destructors of the locals alive
  there, the last constructed first: \<open>data\<close>, then \<open>context\<close>.
\<close>

definition CopyToClipboard :: "OS \<Rightarrow> wstring \<Rightarrow> world \<Rightarrow> bool \<times> world" where
  "CopyToClipboard os text s =
     (let s1 = called Call_OpenClipboard s
      in case OpenClipboard os of
        Inl e \<Rightarrow> (False, LastErrorHandle e Error ''Failed to open clipboard.'' s1)
      | Inr _ \<Rightarrow>
     (let s2 = called Call_EmptyClipboard s1
      in case EmptyClipboard os of
        Inl e \<Rightarrow>
          (False, close_ClipboardContext
                    (LastErrorHandle e Error ''Failed to empty clipboard.'' s2))
      | Inr _ \<Rightarrow>
     (let s3 = called (Call_GlobalAlloc (length text + 1)) s2
      in case GlobalAlloc os (length text + 1) of
        Inl e \<Rightarrow>
          (False, close_ClipboardContext
                    (LastErrorHandle e Error ''Failed to allocate memory for the clipboard.'' s3))
      | Inr h \<Rightarrow>
     (let data = Some h;
          s4 = called (Call_GlobalLock h) s3
      in case GlobalLock os h of
        Inl e \<Rightarrow>
          (False, close_ClipboardContext (free_GlobalHandle data
                    (LastErrorHandle e Error ''Failed to lock memory for the clipboard.'' s4)))
      | Inr _ \<Rightarrow>
     (let s5 = called (Call_GlobalUnlock h) (called (Call_copy h text) s4);
          (raw, data1) = detach data;
          s6 = called (Call_SetClipboardData raw) s5
      in case SetClipboardData os raw of
        Inl e \<Rightarrow>
          (False, close_ClipboardContext (free_GlobalHandle data1
                    (LastErrorHandle e Error ''Failed to copy data to clipboard.'' s6)))
      | Inr _ \<Rightarrow> (True, close_ClipboardContext (free_GlobalHandle data1 s6)))))))"

text \<open>Whether a trace frees the allocation \<open>h\<close>.\<close>

definition freed :: "os_call list \<Rightarrow> HGLOBAL \<Rightarrow> bool" where
  "freed cs h = (Call_GlobalFree h \<in> set cs)"

section \<open>Shell launcher\<close>

datatype fault = OutOfBounds

text \<open>
  \<^verbatim>\<open>std::wstring::operator[]\<close>: the character at \<open>pos\<close> below the length, the null
  character at the length itself, and undefined behaviour beyond it.
\<close>

definition wstring_at :: "wstring \<Rightarrow> nat \<Rightarrow> fault + wchar_t" where
  "wstring_at xs pos =
     (if pos < length xs then Inr (xs ! pos)
      else if pos = length xs then Inr 0
      else Inl OutOfBounds)"

text \<open>
  The source reads with \<^verbatim>\<open>operator[]\<close> and checks nothing, and no exit follows the
  read: where the read is undefined the program goes on with what it finds in memory.
\<close>

definition unchecked_at :: "OS \<Rightarrow> wstring \<Rightarrow> nat \<Rightarrow> wchar_t" where
  "unchecked_at os xs pos =
     (case wstring_at xs pos of
        Inr c \<Rightarrow> c
      | Inl _ \<Rightarrow> memory_past_end os xs pos)"

text \<open>
  \<^verbatim>\<open>OpenLink\<close>. Of the \<^verbatim>\<open>SHELLEXECUTEINFO\<close> structure the verb, the file and the
  class are kept; its other fields are the same constants at every call. The launch is
  always attempted. A failed launch starts a detached thread, recorded with what it
  captured. The result tells whether the read of index 4 was outside the string.
\<close>

definition OpenLink :: "OS \<Rightarrow> wstring \<Rightarrow> world \<Rightarrow> fault option \<times> world" where
  "OpenLink os link s =
     (let info = \<lparr>lpVerb = L ''open'', lpFile = c_str link,
                  lpClass = (if unchecked_at os link 4 = of_char CHR ''s''
                             then L ''https'' else L ''http'')\<rparr>;
          s1 = called (Call_ShellExecuteEx info) s;
          s2 = (case ShellExecuteEx os info of
                  Inr _ \<Rightarrow> s1
                | Inl e \<Rightarrow> s1\<lparr>threads := threads s1 @ [\<lparr>target = link, err = e\<rparr>]\<rparr>)
      in (case wstring_at link 4 of Inl f \<Rightarrow> Some f | Inr _ \<Rightarrow> None, s2))"

section \<open>Process hardener\<close>

definition DRIVE_REMOTE :: UINT where
  "DRIVE_REMOTE = 4"

text \<open>
  \<^verbatim>\<open>HardenProcess\<close> is modelled step by step, one function for each policy, in the
  order of the source; the steps that are commented out in the source are left out.
  A policy structure initialised with \<^verbatim>\<open>{}\<close> has every field false.

  The pattern every step ends with:
  \<^verbatim>\<open>if (!SetProcessMitigationPolicy(...)) { LastErrorHandle(Error::Level::Log, msg); }\<close>
\<close>

definition install :: "OS \<Rightarrow> policy_buffer \<Rightarrow> string \<Rightarrow> world \<Rightarrow> world" where
  "install os buffer msg s =
     (let s1 = called (Call_SetProcessMitigationPolicy buffer) s
      in case SetProcessMitigationPolicy os buffer of
           Inr _ \<Rightarrow> s1
         | Inl e \<Rightarrow> LastErrorHandle e Log msg s1)"

definition harden_aslr :: "OS \<Rightarrow> world \<Rightarrow> world" where
  "harden_aslr os s =
     (let s1 = called (Call_GetProcessMitigationPolicy ProcessASLRPolicy) s
      in case GetProcessMitigationPolicy os of
           Inr aslr_policy \<Rightarrow>
             install os
               (ASLR (aslr_policy\<lparr>EnableForceRelocateImages := True, DisallowStrippedImages := True\<rparr>))
               ''Couldn't disallow stripped images.'' s1
         | Inl e \<Rightarrow> LastErrorHandle e Log ''Couldn't get current ASLR policy.'' s1)"

definition code_policy :: policy_buffer where
  "code_policy =
     DynamicCode \<lparr>ProhibitDynamicCode = True, AllowThreadOptOut = False,
                   AllowRemoteDowngrade = False\<rparr>"

definition harden_dynamic_code :: "OS \<Rightarrow> world \<Rightarrow> world" where
  "harden_dynamic_code os s =
     install os code_policy ''Couldn't disable dynamic code generation.'' s"

definition handle_policy :: policy_buffer where
  "handle_policy =
     StrictHandleCheck \<lparr>RaiseExceptionOnInvalidHandleReference = True,
                         HandleExceptionsPermanentlyEnabled = True\<rparr>"

definition harden_handle :: "OS \<Rightarrow> world \<Rightarrow> world" where
  "harden_handle os s = install os handle_policy ''Couldn't enable strict handle checks.'' s"

definition extension_policy :: policy_buffer where
  "extension_policy = ExtensionPointDisable \<lparr>DisableExtensionPoints = True\<rparr>"

definition harden_extension :: "OS \<Rightarrow> world \<Rightarrow> world" where
  "harden_extension os s =
     install os extension_policy ''Couldn't disable extension point DLLs.'' s"

definition signature_policy :: policy_buffer where
  "signature_policy =
     Signature \<lparr>MicrosoftSignedOnly = False, StoreSignedOnly = False, MitigationOptIn = True\<rparr>"

definition harden_signature :: "OS \<Rightarrow> world \<Rightarrow> world" where
  "harden_signature os s =
     install os signature_policy ''Couldn't enable image signature enforcement.'' s"

definition harden_image_load :: "OS \<Rightarrow> world \<Rightarrow> world" where
  "harden_image_load os s =
     (let load_policy = \<lparr>NoRemoteImages = False, NoLowMandatoryLabelImages = True,
                          PreferSystem32Images = True\<rparr>
      in case GetExeLocation os s of
           (exe, s1) \<Rightarrow>
             (let s2 = called (Call_GetVolumePathName (c_str exe)) s1
              in case GetVolumePathName os (c_str exe) of
                   Inr volumePath \<Rightarrow>
                     install os
                       (ImageLoad (load_policy\<lparr>NoRemoteImages :=
                                     GetDriveType os volumePath \<noteq> DRIVE_REMOTE\<rparr>))
                       ''Couldn't set image load policy.''
                       (called (Call_GetDriveType volumePath) s2)
                 | Inl e \<Rightarrow>
                     install os (ImageLoad load_policy) ''Couldn't set image load policy.''
                       (LastErrorHandle e Log ''Unable to get volume path name.'' s2)))"

definition HardenProcess :: "OS \<Rightarrow> world \<Rightarrow> world" where
  "HardenProcess os s =
     harden_image_load os (harden_signature os (harden_extension os
       (harden_handle os (harden_dynamic_code os (harden_aslr os s)))))"

section \<open>Observations on runs\<close>

text \<open>
  The two operations that reach \<^verbatim>\<open>m_ExeLocation\<close>, called one after the other in any
  order, the operating system answering each call in its own way.
\<close>

datatype facade_op = Op_GetExeLocation | Op_HardenProcess

fun facade_run :: "(OS \<times> facade_op) list \<Rightarrow> world \<Rightarrow> world" where
  "facade_run [] s = s"
| "facade_run ((os, Op_GetExeLocation) # rest) s = facade_run rest (snd (GetExeLocation os s))"
| "facade_run ((os, Op_HardenProcess) # rest) s = facade_run rest (HardenProcess os s)"

text \<open>The sink entry a failed call leaves at Log severity; none after a successful call.\<close>

definition logged :: "'a api \<Rightarrow> string \<Rightarrow> sink_entry list" where
  "logged answer msg =
     (case answer of
        Inr _ \<Rightarrow> []
      | Inl e \<Rightarrow> [\<lparr>code = HRESULT_FROM_WIN32 e, level = Log, message = msg\<rparr>])"

text \<open>What an operation added to the trace of calls and to the sink.\<close>

definition new_calls :: "world \<Rightarrow> world \<Rightarrow> os_call list" where
  "new_calls s s' = drop (length (calls s)) (calls s')"

definition new_sink :: "world \<Rightarrow> world \<Rightarrow> sink_entry list" where
  "new_sink s s' = drop (length (sink s)) (sink s')"

text \<open>
  The mitigation policies a trace works on, in order: the policy of every query and of
  every install, a run of calls on one policy counted once.
\<close>

fun step_of :: "os_call \<Rightarrow> PROCESS_MITIGATION_POLICY option" where
  "step_of (Call_GetProcessMitigationPolicy p) = Some p"
| "step_of (Call_SetProcessMitigationPolicy buffer) = Some (policy_of buffer)"
| "step_of _ = None"

definition steps :: "os_call list \<Rightarrow> PROCESS_MITIGATION_POLICY list" where
  "steps cs = remdups_adj (List.map_filter step_of cs)"

fun installed :: "os_call \<Rightarrow> policy_buffer option" where
  "installed (Call_SetProcessMitigationPolicy buffer) = Some buffer"
| "installed _ = None"

definition installs :: "os_call list \<Rightarrow> policy_buffer list" where
  "installs cs = List.map_filter installed cs"

text \<open>The class of the launch a trace ends with.\<close>

definition shell_class :: "world \<Rightarrow> wstring option" where
  "shell_class s =
     (case rev (calls s) of
        Call_ShellExecuteEx info # _ \<Rightarrow> Some (lpClass info)
      | _ \<Rightarrow> None)"

text \<open>
  The Fatal entry \<^verbatim>\<open>GetExeLocation\<close> leaves in the sink: one entry when the cache is
  empty and the query fails with a non-zero error code, none otherwise.
\<close>

definition fatal_entries :: "OS \<Rightarrow> world \<Rightarrow> sink_entry list" where
  "fatal_entries os s =
     (if m_ExeLocation s = [] then
        (case QueryFullProcessImageName os of
           Inl e \<Rightarrow>
             if e = 0 then []
             else [\<lparr>code = HRESULT_FROM_WIN32 e, level = Fatal,
                    message = ''Failed to determine executable location!''\<rparr>]
         | Inr _ \<Rightarrow> [])
      else [])"

subsection \<open>Concrete inputs\<close>

text \<open>A fresh process, and an operating system on which every call succeeds.\<close>

definition w0 :: world where
  "w0 = \<lparr>m_ExeLocation = [], sink = [], calls = [], threads = []\<rparr>"

definition os_ok :: OS where
  "os_ok =
     \<lparr>QueryFullProcessImageName = Inr (L ''C:/ttb.exe'' @ replicate 6 0, 10),
      VerifyVersionInfo = (\<lambda>_. Inr ()),
      GetFileAttributes = (\<lambda>_. (0x20, 0)),
      OpenClipboard = Inr (),
      EmptyClipboard = Inr (),
      GlobalAlloc = (\<lambda>_. Inr 1),
      GlobalLock = (\<lambda>_. Inr ()),
      SetClipboardData = (\<lambda>_. Inr ()),
      ShellExecuteEx = (\<lambda>_. Inr ()),
      GetProcessMitigationPolicy =
        Inr \<lparr>EnableBottomUpRandomization = True, EnableForceRelocateImages = False,
             EnableHighEntropy = True, DisallowStrippedImages = False\<rparr>,
      SetProcessMitigationPolicy = (\<lambda>_. Inr ()),
      GetVolumePathName = (\<lambda>_. Inr (L ''C:/'')),
      GetDriveType = (\<lambda>_. 3),
      memory_past_end = (\<lambda>_ _. 0)\<rparr>"

text \<open>The same system refusing one call with \<^verbatim>\<open>ERROR_ACCESS_DENIED\<close>.\<close>

definition os_no_image_name :: OS where
  "os_no_image_name = os_ok\<lparr>QueryFullProcessImageName := Inl 5\<rparr>"

definition os_no_handoff :: OS where
  "os_no_handoff = os_ok\<lparr>SetClipboardData := (\<lambda>_. Inl 5)\<rparr>"

definition os_no_volume :: OS where
  "os_no_volume = os_ok\<lparr>GetVolumePathName := (\<lambda>_. Inl 5)\<rparr>"

definition os_remote :: OS where
  "os_remote = os_ok\<lparr>GetDriveType := (\<lambda>_. DRIVE_REMOTE)\<rparr>"

text \<open>A system that refuses every call the hardener and the path cache make.\<close>

definition os_hostile :: OS where
  "os_hostile =
     os_ok\<lparr>QueryFullProcessImageName := Inl 5,
           GetProcessMitigationPolicy := Inl 5,
           SetProcessMitigationPolicy := (\<lambda>_. Inl 5),
           GetVolumePathName := (\<lambda>_. Inl 5)\<rparr>"

text \<open>The same system with the character \<^verbatim>\<open>s\<close> left in memory behind every string.\<close>

definition os_stale :: OS where
  "os_stale = os_ok\<lparr>memory_past_end := (\<lambda>_ _. of_char CHR ''s'')\<rparr>"

definition os_missing :: OS where
  "os_missing = os_ok\<lparr>GetFileAttributes := (\<lambda>_. (INVALID_FILE_ATTRIBUTES, ERROR_FILE_NOT_FOUND))\<rparr>"

definition os_locked :: OS where
  "os_locked = os_ok\<lparr>GetFileAttributes := (\<lambda>_. (INVALID_FILE_ATTRIBUTES, 5))\<rparr>"

definition os_folder :: OS where
  "os_folder = os_ok\<lparr>GetFileAttributes := (\<lambda>_. (0x10, 0))\<rparr>"

definition os_no_version :: OS where
  "os_no_version = os_ok\<lparr>VerifyVersionInfo := (\<lambda>_. Inl 5)\<rparr>"

definition os_old :: OS where
  "os_old = os_ok\<lparr>VerifyVersionInfo := (\<lambda>_. Inl ERROR_OLD_WIN_VERSION)\<rparr>"

section \<open>Error codes\<close>

lemma sint_neg_iff_bit31: "sint (x::32 word) < 0 \<longleftrightarrow> bit x 31"
  using bit_last_iff [of x] by simp

lemma sint_eq_0_iff: "sint (x::32 word) = 0 \<longleftrightarrow> x = 0"
  by (fact signed_eq_0_iff)

lemma FAILED_HRESULT_FROM_WIN32: "FAILED (HRESULT_FROM_WIN32 e) \<longleftrightarrow> e \<noteq> 0"
proof (cases "sint e \<le> 0")
  case True
  then have "sint e < 0 \<longleftrightarrow> e \<noteq> 0"
    using sint_eq_0_iff [of e] by auto
  with True show ?thesis
    by (simp add: FAILED_def HRESULT_FROM_WIN32_def)
next
  case False
  then have "e \<noteq> 0" by auto
  moreover have
    "bit ((e AND 0x0000FFFF) OR push_bit 16 FACILITY_WIN32 OR (0x80000000 :: 32 word)) 31"
    by (simp add: bit_or_iff bit_simps)
  ultimately show ?thesis
    using False by (simp add: FAILED_def HRESULT_FROM_WIN32_def sint_neg_iff_bit31)
qed

lemma SUCCEEDED_iff_not_FAILED: "SUCCEEDED hr \<longleftrightarrow> \<not> FAILED hr"
  by (auto simp: SUCCEEDED_def FAILED_def)

section \<open>The executable's path\<close>

lemma GetExeLocation_cached:
  "m_ExeLocation s \<noteq> [] \<Longrightarrow> GetExeLocation os s = (m_ExeLocation s, s)"
  by (simp add: GetExeLocation_def)

lemma GetExeLocation_returns_cache:
  "GetExeLocation os s = (r, s') \<Longrightarrow> r = m_ExeLocation s'"
  by (auto simp: GetExeLocation_def Let_def split: if_splits prod.splits)

lemma GetExeLocation_failure:
  assumes "m_ExeLocation s = []" "QueryFullProcessImageName os = Inl e" "e \<noteq> 0"
  shows "GetExeLocation os s =
    ([], ErrorHandle (HRESULT_FROM_WIN32 e) Fatal ''Failed to determine executable location!''
           (called Call_QueryFullProcessImageName s))"
  using assms FAILED_HRESULT_FROM_WIN32 [of e]
  by (simp add: GetExeLocation_def GetProcessFileName_def SUCCEEDED_iff_not_FAILED
      ErrorHandle_def called_def)

lemma GetExeLocation_success:
  assumes "m_ExeLocation s = []" "QueryFullProcessImageName os = Inr (buf, n)"
  shows "GetExeLocation os s =
    (resize (unat n) buf,
     (called Call_QueryFullProcessImageName s)\<lparr>m_ExeLocation := resize (unat n) buf\<rparr>)"
  using assms
  by (simp add: GetExeLocation_def GetProcessFileName_def SUCCEEDED_def S_OK_def called_def)

lemma w0_simps:
  "m_ExeLocation w0 = []" "sink w0 = []" "calls w0 = []" "threads w0 = []"
  by (simp_all add: w0_def)

lemma os_ok_query: "QueryFullProcessImageName os_ok = Inr (L ''C:/ttb.exe'' @ replicate 6 0, 10)"
  by (simp add: os_ok_def)

lemma os_no_image_name_query: "QueryFullProcessImageName os_no_image_name = Inl 5"
  by (simp add: os_no_image_name_def)

lemma resize_ttb: "resize 10 (L ''C:/ttb.exe'' @ replicate 6 0) = L ''C:/ttb.exe''"
  by (simp add: resize_def L_def)

lemma m_ExeLocation_called [simp]: "m_ExeLocation (called c s) = m_ExeLocation s"
  by (simp add: called_def)

lemma m_ExeLocation_ErrorHandle [simp]: "m_ExeLocation (ErrorHandle hr lvl msg s) = m_ExeLocation s"
  by (simp add: ErrorHandle_def)

lemma m_ExeLocation_LastErrorHandle [simp]:
  "m_ExeLocation (LastErrorHandle e lvl msg s) = m_ExeLocation s"
  by (simp add: LastErrorHandle_def)

lemma m_ExeLocation_install [simp]: "m_ExeLocation (install os buffer msg s) = m_ExeLocation s"
  by (simp add: install_def Let_def split: sum.splits)

lemma m_ExeLocation_harden_aslr [simp]: "m_ExeLocation (harden_aslr os s) = m_ExeLocation s"
  by (simp add: harden_aslr_def Let_def split: sum.splits)

lemma m_ExeLocation_harden_dynamic_code [simp]:
  "m_ExeLocation (harden_dynamic_code os s) = m_ExeLocation s"
  by (simp add: harden_dynamic_code_def)

lemma m_ExeLocation_harden_handle [simp]: "m_ExeLocation (harden_handle os s) = m_ExeLocation s"
  by (simp add: harden_handle_def)

lemma m_ExeLocation_harden_extension [simp]:
  "m_ExeLocation (harden_extension os s) = m_ExeLocation s"
  by (simp add: harden_extension_def)

lemma m_ExeLocation_harden_signature [simp]:
  "m_ExeLocation (harden_signature os s) = m_ExeLocation s"
  by (simp add: harden_signature_def)

lemma m_ExeLocation_harden_image_load:
  "m_ExeLocation s \<noteq> [] \<Longrightarrow> m_ExeLocation (harden_image_load os s) = m_ExeLocation s"
  by (simp add: harden_image_load_def GetExeLocation_cached Let_def split: sum.splits)

lemma m_ExeLocation_HardenProcess:
  "m_ExeLocation s \<noteq> [] \<Longrightarrow> m_ExeLocation (HardenProcess os s) = m_ExeLocation s"
  by (simp add: HardenProcess_def m_ExeLocation_harden_image_load)

lemma facade_run_keeps_cache:
  "m_ExeLocation s \<noteq> [] \<Longrightarrow> m_ExeLocation (facade_run ops s) = m_ExeLocation s"
proof (induction ops s rule: facade_run.induct)
  case (1 s)
  then show ?case by simp
next
  case (2 os rest s)
  then show ?case by (simp add: GetExeLocation_cached)
next
  case (3 os rest s)
  then show ?case by (simp add: m_ExeLocation_HardenProcess)
qed

lemma facade_run_append:
  "facade_run (pre @ post) s = facade_run post (facade_run pre s)"
  by (induction pre s rule: facade_run.induct) simp_all

lemma GetExeLocation_empty_queries:
  "m_ExeLocation s = [] \<Longrightarrow>
     calls (snd (GetExeLocation os s)) = calls s @ [Call_QueryFullProcessImageName]"
  by (auto simp: GetExeLocation_def GetProcessFileName_def ErrorHandle_def called_def Let_def
      split: sum.splits prod.splits)

lemma GetExeLocation_failed_stays_empty:
  "m_ExeLocation s = [] \<Longrightarrow> QueryFullProcessImageName os = Inl e \<Longrightarrow>
     m_ExeLocation (snd (GetExeLocation os s)) = []"
  by (auto simp: GetExeLocation_def GetProcessFileName_def ErrorHandle_def called_def Let_def)

lemma GetExeLocation_fst: "fst (GetExeLocation os s) = m_ExeLocation (snd (GetExeLocation os s))"
  using GetExeLocation_returns_cache [of os s] by (cases "GetExeLocation os s") simp

lemma GetExeLocation_cong:
  "m_ExeLocation s = m_ExeLocation t \<Longrightarrow> fst (GetExeLocation os s) = fst (GetExeLocation os t)"
  by (simp add: GetExeLocation_def GetProcessFileName_def ErrorHandle_def called_def Let_def
      split: sum.splits prod.splits)

lemma m_ExeLocation_harden_image_load_general:
  "m_ExeLocation (harden_image_load os s) = fst (GetExeLocation os s)"
  by (simp add: harden_image_load_def GetExeLocation_fst Let_def split: sum.splits prod.splits)

lemma HardenProcess_cache: "m_ExeLocation (HardenProcess os s) = fst (GetExeLocation os s)"
  unfolding HardenProcess_def m_ExeLocation_harden_image_load_general
  by (rule GetExeLocation_cong) simp

lemma run_example:
  "m_ExeLocation (facade_run [(os_no_image_name, Op_GetExeLocation), (os_ok, Op_HardenProcess)] w0)
     = L ''C:/ttb.exe''"
  by (simp add: GetExeLocation_failure w0_simps os_no_image_name_query HardenProcess_cache
      GetExeLocation_success [OF _ os_ok_query] resize_ttb)

text \<open>
  Claim C6, as the code has it. \<^verbatim>\<open>GetExeLocation\<close> is memoized on success only: once
  a call has returned a non-empty path, every later call returns the same path and
  leaves the whole state as it is, so no call to the operating system is made and
  nothing reaches the sink, whatever the operating system would answer. A call on
  an empty cache whose query succeeds returns the characters written and stores them.
  A call on an empty cache whose query fails with a non-zero error code invokes the
  sink at Fatal severity, returns the empty string and stores nothing.
\<close>

theorem GetExeLocation_memoized_on_success:
  "(GetExeLocation os s = (r, s') \<longrightarrow> r \<noteq> [] \<longrightarrow> GetExeLocation os' s' = (r, s'))
   \<and> (m_ExeLocation s = [] \<longrightarrow> QueryFullProcessImageName os = Inr (buf, n) \<longrightarrow>
        GetExeLocation os s =
          (resize (unat n) buf,
           (called Call_QueryFullProcessImageName s)\<lparr>m_ExeLocation := resize (unat n) buf\<rparr>))
   \<and> (m_ExeLocation s = [] \<longrightarrow> QueryFullProcessImageName os = Inl e \<longrightarrow> e \<noteq> 0 \<longrightarrow>
        GetExeLocation os s =
          ([], ErrorHandle (HRESULT_FROM_WIN32 e) Fatal ''Failed to determine executable location!''
                 (called Call_QueryFullProcessImageName s)))"
  using GetExeLocation_returns_cache [of os s r s'] GetExeLocation_cached [of s' os']
    GetExeLocation_success [of s os buf n] GetExeLocation_failure [of s os e]
  by auto

text \<open>
  The same at concrete inputs: a first call that succeeds, a second call that returns
  the cached path although the operating system would now refuse, and a call that
  fails on a fresh process.
\<close>

theorem GetExeLocation_memoized_on_success_witness:
  "GetExeLocation os_ok w0 =
     (L ''C:/ttb.exe'', (called Call_QueryFullProcessImageName w0)\<lparr>m_ExeLocation := L ''C:/ttb.exe''\<rparr>)
   \<and> GetExeLocation os_no_image_name
         ((called Call_QueryFullProcessImageName w0)\<lparr>m_ExeLocation := L ''C:/ttb.exe''\<rparr>) =
     (L ''C:/ttb.exe'', (called Call_QueryFullProcessImageName w0)\<lparr>m_ExeLocation := L ''C:/ttb.exe''\<rparr>)
   \<and> GetExeLocation os_no_image_name w0 =
     ([], ErrorHandle (HRESULT_FROM_WIN32 5) Fatal ''Failed to determine executable location!''
            (called Call_QueryFullProcessImageName w0))"
proof -
  let ?p = "L ''C:/ttb.exe''"
  let ?s1 = "(called Call_QueryFullProcessImageName w0)\<lparr>m_ExeLocation := ?p\<rparr>"
  have first: "GetExeLocation os_ok w0 = (?p, ?s1)"
    using GetExeLocation_memoized_on_success [of os_ok w0 _ _ _ "L ''C:/ttb.exe'' @ replicate 6 0" 10]
    by (simp add: w0_simps os_ok_query resize_ttb)
  have "?p \<noteq> []"
    by (simp add: L_def)
  with first have second: "GetExeLocation os_no_image_name ?s1 = (?p, ?s1)"
    using GetExeLocation_memoized_on_success [of os_ok w0 ?p ?s1 os_no_image_name]
    by simp
  have third: "GetExeLocation os_no_image_name w0 =
     ([], ErrorHandle (HRESULT_FROM_WIN32 5) Fatal ''Failed to determine executable location!''
            (called Call_QueryFullProcessImageName w0))"
    using GetExeLocation_memoized_on_success [of os_no_image_name w0 _ _ _ _ _ 5]
    by (simp add: w0_simps os_no_image_name_query)
  from first second third show ?thesis by simp
qed

text \<open>
  Claim C6 as stated fails: two calls need not return the same string. On a fresh
  process a first call whose query is refused returns the empty string, and a second
  call whose query succeeds returns the path.
\<close>

theorem GetExeLocation_twice_counterexample:
  "fst (GetExeLocation os_no_image_name w0)
   \<noteq> fst (GetExeLocation os_ok (snd (GetExeLocation os_no_image_name w0)))"
  by (simp add: GetExeLocation_def GetProcessFileName_def os_ok_def os_no_image_name_def w0_def SUCCEEDED_def S_OK_def
      HRESULT_FROM_WIN32_def FACILITY_WIN32_def ErrorHandle_def called_def resize_def L_def)

text \<open>
  Claim C9: the cache is monotone. However \<^verbatim>\<open>GetExeLocation\<close> and
  \<^verbatim>\<open>HardenProcess\<close> are called, once the cache is non-empty no further call changes
  it. A failed query on an empty cache leaves it empty, and every call on an empty
  cache queries the operating system again.
\<close>

theorem m_ExeLocation_monotone:
  "(m_ExeLocation (facade_run pre s) \<noteq> [] \<longrightarrow>
      m_ExeLocation (facade_run (pre @ post) s) = m_ExeLocation (facade_run pre s))
   \<and> (m_ExeLocation s = [] \<longrightarrow> QueryFullProcessImageName os = Inl e \<longrightarrow>
        m_ExeLocation (snd (GetExeLocation os s)) = [])
   \<and> (m_ExeLocation s = [] \<longrightarrow>
        calls (snd (GetExeLocation os s)) = calls s @ [Call_QueryFullProcessImageName])"
  using facade_run_keeps_cache [of "facade_run pre s" post]
    GetExeLocation_failed_stays_empty [of s os e] GetExeLocation_empty_queries [of s os]
  by (simp add: facade_run_append)

text \<open>
  The same at concrete inputs: a refused query, then a hardening run that resolves
  the path, then two more calls on a system that would refuse again.
\<close>

theorem m_ExeLocation_monotone_witness:
  "m_ExeLocation (facade_run [(os_no_image_name, Op_GetExeLocation), (os_ok, Op_HardenProcess)] w0)
     = L ''C:/ttb.exe''
   \<and> m_ExeLocation (facade_run ([(os_no_image_name, Op_GetExeLocation), (os_ok, Op_HardenProcess)]
        @ [(os_no_image_name, Op_HardenProcess), (os_no_image_name, Op_GetExeLocation)]) w0)
     = L ''C:/ttb.exe''
   \<and> m_ExeLocation (snd (GetExeLocation os_no_image_name w0)) = []
   \<and> calls (snd (GetExeLocation os_no_image_name w0)) = [Call_QueryFullProcessImageName]"
proof -
  have "L ''C:/ttb.exe'' \<noteq> []"
    by (simp add: L_def)
  then show ?thesis
    using m_ExeLocation_monotone
      [of "[(os_no_image_name, Op_GetExeLocation), (os_ok, Op_HardenProcess)]" w0
          "[(os_no_image_name, Op_HardenProcess), (os_no_image_name, Op_GetExeLocation)]"
          os_no_image_name 5]
    by (simp add: run_example w0_simps os_no_image_name_query del: facade_run.simps append.simps)
qed


lemma sink_called [simp]: "sink (called c s) = sink s"
  by (simp add: called_def)

lemma calls_called [simp]: "calls (called c s) = calls s @ [c]"
  by (simp add: called_def)

lemma sink_ErrorHandle [simp]:
  "sink (ErrorHandle hr lvl msg s) = sink s @ [\<lparr>code = hr, level = lvl, message = msg\<rparr>]"
  by (simp add: ErrorHandle_def)

lemma calls_ErrorHandle [simp]: "calls (ErrorHandle hr lvl msg s) = calls s"
  by (simp add: ErrorHandle_def)

lemma sink_LastErrorHandle [simp]:
  "sink (LastErrorHandle e lvl msg s) =
     sink s @ [\<lparr>code = HRESULT_FROM_WIN32 e, level = lvl, message = msg\<rparr>]"
  by (simp add: LastErrorHandle_def)

lemma calls_LastErrorHandle [simp]: "calls (LastErrorHandle e lvl msg s) = calls s"
  by (simp add: LastErrorHandle_def)

section \<open>The probes\<close>

text \<open>
  Claim C3: when the attribute query fails, \<^verbatim>\<open>FileExists\<close> and \<^verbatim>\<open>IsDirectory\<close>
  both return false. If the error is \<^verbatim>\<open>ERROR_FILE_NOT_FOUND\<close> or
  \<^verbatim>\<open>ERROR_PATH_NOT_FOUND\<close> the sink is not invoked at all; for every other error
  it is invoked once, at Log severity by \<^verbatim>\<open>FileExists\<close> and at Debug severity by
  \<^verbatim>\<open>IsDirectory\<close>.
\<close>

theorem probes_failed_query:
  assumes "GetFileAttributes os (c_str path) = (INVALID_FILE_ATTRIBUTES, error)"
  shows "\<not> fst (FileExists os path s) \<and> \<not> fst (IsDirectory os path s)
    \<and> (error = ERROR_FILE_NOT_FOUND \<or> error = ERROR_PATH_NOT_FOUND \<longrightarrow>
          sink (snd (FileExists os path s)) = sink s
        \<and> sink (snd (IsDirectory os path s)) = sink s)
    \<and> (error \<noteq> ERROR_FILE_NOT_FOUND \<and> error \<noteq> ERROR_PATH_NOT_FOUND \<longrightarrow>
          sink (snd (FileExists os path s)) =
            sink s @ [\<lparr>code = HRESULT_FROM_WIN32 error, level = Log,
                        message = ''Failed to check if file exists.''\<rparr>]
        \<and> sink (snd (IsDirectory os path s)) =
            sink s @ [\<lparr>code = HRESULT_FROM_WIN32 error, level = Debug,
                        message = ''Failed to check if directory exists.''\<rparr>])"
  using assms by (simp add: FileExists_def IsDirectory_def Let_def)

lemma os_missing_attributes:
  "GetFileAttributes os_missing p = (INVALID_FILE_ATTRIBUTES, ERROR_FILE_NOT_FOUND)"
  by (simp add: os_missing_def)

lemma os_locked_attributes:
  "GetFileAttributes os_locked p = (INVALID_FILE_ATTRIBUTES, 5)"
  by (simp add: os_locked_def)

text \<open>
  At concrete inputs: a path that does not exist, and a path whose query is refused
  with \<^verbatim>\<open>ERROR_ACCESS_DENIED\<close>.
\<close>

theorem probes_failed_query_witness:
  "\<not> fst (FileExists os_missing (L ''C:/nothing'') w0)
   \<and> \<not> fst (IsDirectory os_missing (L ''C:/nothing'') w0)
   \<and> sink (snd (FileExists os_missing (L ''C:/nothing'') w0)) = []
   \<and> sink (snd (IsDirectory os_missing (L ''C:/nothing'') w0)) = []
   \<and> \<not> fst (FileExists os_locked (L ''C:/secret'') w0)
   \<and> \<not> fst (IsDirectory os_locked (L ''C:/secret'') w0)
   \<and> sink (snd (FileExists os_locked (L ''C:/secret'') w0)) =
       [\<lparr>code = 0x80070005, level = Log, message = ''Failed to check if file exists.''\<rparr>]
   \<and> sink (snd (IsDirectory os_locked (L ''C:/secret'') w0)) =
       [\<lparr>code = 0x80070005, level = Debug, message = ''Failed to check if directory exists.''\<rparr>]"
proof -
  have hr: "HRESULT_FROM_WIN32 5 = 0x80070005"
    by (simp add: HRESULT_FROM_WIN32_def FACILITY_WIN32_def)
  have five: "(5 :: DWORD) \<noteq> ERROR_FILE_NOT_FOUND \<and> (5 :: DWORD) \<noteq> ERROR_PATH_NOT_FOUND"
    by (simp add: ERROR_FILE_NOT_FOUND_def ERROR_PATH_NOT_FOUND_def)
  show ?thesis
    using probes_failed_query [OF os_missing_attributes, of "L ''C:/nothing''" w0]
      probes_failed_query [OF os_locked_attributes, of "L ''C:/secret''" w0] five
    by (simp add: w0_simps hr)
qed

lemma directory_bit: "(attributes AND FILE_ATTRIBUTE_DIRECTORY \<noteq> 0) \<longleftrightarrow> bit attributes 4"
  for attributes :: DWORD
  using and_exp_eq_0_iff_not_bit [of attributes 4] by (simp add: FILE_ATTRIBUTE_DIRECTORY_def)

text \<open>
  Claim C4: when the attribute query succeeds, \<^verbatim>\<open>IsDirectory\<close> returns true exactly
  when the directory attribute (bit 4, \<^verbatim>\<open>0x10\<close>) is set and \<^verbatim>\<open>FileExists\<close> exactly
  when it is not, so exactly one of the two returns true.
\<close>

theorem probes_directory_attribute:
  assumes "GetFileAttributes os (c_str path) = (attributes, error)"
    and "attributes \<noteq> INVALID_FILE_ATTRIBUTES"
  shows "(fst (IsDirectory os path s) \<longleftrightarrow> bit attributes 4)
    \<and> (fst (FileExists os path s') \<longleftrightarrow> \<not> bit attributes 4)
    \<and> fst (IsDirectory os path s) \<noteq> fst (FileExists os path s')"
  using assms by (simp add: IsDirectory_def FileExists_def directory_bit Let_def)

lemma os_ok_attributes: "GetFileAttributes os_ok p = (0x20, 0)"
  by (simp add: os_ok_def)

lemma os_folder_attributes: "GetFileAttributes os_folder p = (0x10, 0)"
  by (simp add: os_folder_def)

text \<open>At concrete inputs: a directory, and a regular file with the archive attribute.\<close>

theorem probes_directory_attribute_witness:
  "fst (IsDirectory os_folder (L ''C:/Windows'') w0)
   \<and> \<not> fst (FileExists os_folder (L ''C:/Windows'') w0)
   \<and> \<not> fst (IsDirectory os_ok (L ''C:/ttb.exe'') w0)
   \<and> fst (FileExists os_ok (L ''C:/ttb.exe'') w0)"
proof -
  have "(0x10 :: DWORD) \<noteq> INVALID_FILE_ATTRIBUTES" "(0x20 :: DWORD) \<noteq> INVALID_FILE_ATTRIBUTES"
    by (simp_all add: INVALID_FILE_ATTRIBUTES_def)
  moreover have "bit (0x10 :: DWORD) 4" "\<not> bit (0x20 :: DWORD) 4"
    using directory_bit [of "0x10"] directory_bit [of "0x20"]
    by (simp_all add: FILE_ATTRIBUTE_DIRECTORY_def)
  ultimately show ?thesis
    using probes_directory_attribute [OF os_folder_attributes, of "L ''C:/Windows''" w0 w0]
      probes_directory_attribute [OF os_ok_attributes, of "L ''C:/ttb.exe''" w0 w0]
    by simp
qed

text \<open>
  Claim C10: \<^verbatim>\<open>IsAtLeastBuild\<close> returns true exactly when the version check for
  Windows 10.0 with the given build number succeeds. When the check fails with
  \<^verbatim>\<open>ERROR_OLD_WIN_VERSION\<close> the sink is not invoked; with any other error code it
  is invoked once at Log severity.
\<close>

theorem IsAtLeastBuild_result:
  "(fst (IsAtLeastBuild os buildNumber s) \<longleftrightarrow>
      VerifyVersionInfo os
        \<lparr>dwMajorVersion = 10, dwMinorVersion = 0, dwBuildNumber = buildNumber\<rparr> = Inr ())
   \<and> (VerifyVersionInfo os
        \<lparr>dwMajorVersion = 10, dwMinorVersion = 0, dwBuildNumber = buildNumber\<rparr>
          = Inl ERROR_OLD_WIN_VERSION \<longrightarrow>
        sink (snd (IsAtLeastBuild os buildNumber s)) = sink s)
   \<and> (VerifyVersionInfo os
        \<lparr>dwMajorVersion = 10, dwMinorVersion = 0, dwBuildNumber = buildNumber\<rparr> = Inl e \<longrightarrow>
      e \<noteq> ERROR_OLD_WIN_VERSION \<longrightarrow>
        sink (snd (IsAtLeastBuild os buildNumber s)) =
          sink s @ [\<lparr>code = HRESULT_FROM_WIN32 e, level = Log,
                      message = ''Error obtaining version info.''\<rparr>])"
  by (auto simp: IsAtLeastBuild_def Let_def split: sum.splits)

text \<open>
  At concrete inputs: a recent system, an old one, and one whose check is refused.
\<close>

theorem IsAtLeastBuild_result_witness:
  "fst (IsAtLeastBuild os_ok 17763 w0)
   \<and> \<not> fst (IsAtLeastBuild os_old 17763 w0)
   \<and> sink (snd (IsAtLeastBuild os_old 17763 w0)) = []
   \<and> \<not> fst (IsAtLeastBuild os_no_version 17763 w0)
   \<and> sink (snd (IsAtLeastBuild os_no_version 17763 w0)) =
       [\<lparr>code = 0x80070005, level = Log, message = ''Error obtaining version info.''\<rparr>]"
proof -
  have hr: "HRESULT_FROM_WIN32 5 = 0x80070005"
    by (simp add: HRESULT_FROM_WIN32_def FACILITY_WIN32_def)
  have five: "(5 :: DWORD) \<noteq> ERROR_OLD_WIN_VERSION"
    by (simp add: ERROR_OLD_WIN_VERSION_def)
  have "VerifyVersionInfo os_ok v = Inr ()" "VerifyVersionInfo os_old v = Inl ERROR_OLD_WIN_VERSION"
    "VerifyVersionInfo os_no_version v = Inl 5" for v
    by (simp_all add: os_ok_def os_old_def os_no_version_def)
  then show ?thesis
    using IsAtLeastBuild_result [of os_ok 17763 w0]
      IsAtLeastBuild_result [of os_old 17763 w0]
      IsAtLeastBuild_result [of os_no_version 17763 w0 5] five
    by (simp add: w0_simps hr)
qed


section \<open>The launcher\<close>

lemma calls_OpenLink:
  "calls (snd (OpenLink os link s)) =
     calls s @ [Call_ShellExecuteEx
       \<lparr>lpVerb = L ''open'', lpFile = c_str link,
        lpClass = (if unchecked_at os link 4 = of_char CHR ''s''
                   then L ''https'' else L ''http'')\<rparr>]"
  by (simp add: OpenLink_def called_def Let_def split: sum.splits)

lemma shell_class_OpenLink:
  "shell_class (snd (OpenLink os link s)) =
     Some (if unchecked_at os link 4 = of_char CHR ''s'' then L ''https'' else L ''http'')"
  by (simp add: shell_class_def calls_OpenLink)

lemma fst_OpenLink:
  "fst (OpenLink os link s) = (if length link < 4 then Some OutOfBounds else None)"
  by (simp add: OpenLink_def wstring_at_def Let_def)

lemma unchecked_at_in_bounds:
  "4 \<le> length link \<Longrightarrow> unchecked_at os link 4 = (if 4 < length link then link ! 4 else 0)"
  by (auto simp: unchecked_at_def wstring_at_def)

lemma unchecked_at_short:
  "length link < 4 \<Longrightarrow> unchecked_at os link 4 = memory_past_end os link 4"
  by (simp add: unchecked_at_def wstring_at_def)

text \<open>
  Claim C5: for every string passed to \<^verbatim>\<open>OpenLink\<close> the launch is made, and the class
  handed to \<^verbatim>\<open>ShellExecuteEx\<close> is \<^verbatim>\<open>https\<close> if the character the read of index 4
  yields is \<^verbatim>\<open>s\<close>, and \<^verbatim>\<open>http\<close> otherwise. For every URL of at least four characters
  the read is inside the string and yields the URL's own character at index 4, or the
  terminator when there is none. \<^verbatim>\<open>http://example.com\<close> is launched with
  \<^verbatim>\<open>http\<close> and \<^verbatim>\<open>https://example.com\<close> with \<^verbatim>\<open>https\<close>.
\<close>

theorem OpenLink_class:
  "shell_class (snd (OpenLink os link s)) =
     Some (if unchecked_at os link 4 = of_char CHR ''s'' then L ''https'' else L ''http'')
   \<and> (4 \<le> length link \<longrightarrow>
        fst (OpenLink os link s) = None
        \<and> unchecked_at os link 4 = (if 4 < length link then link ! 4 else 0)
        \<and> shell_class (snd (OpenLink os link s)) =
            Some (if 4 < length link \<and> link ! 4 = of_char CHR ''s''
                  then L ''https'' else L ''http''))
   \<and> shell_class (snd (OpenLink os (L ''http://example.com'') s)) = Some (L ''http'')
   \<and> shell_class (snd (OpenLink os (L ''https://example.com'') s)) = Some (L ''https'')"
proof (intro conjI impI)
  show "shell_class (snd (OpenLink os link s)) =
     Some (if unchecked_at os link 4 = of_char CHR ''s'' then L ''https'' else L ''http'')"
    by (rule shell_class_OpenLink)
next
  assume "4 \<le> length link"
  then show "fst (OpenLink os link s) = None"
    by (simp add: fst_OpenLink)
next
  assume "4 \<le> length link"
  then show "unchecked_at os link 4 = (if 4 < length link then link ! 4 else 0)"
    by (rule unchecked_at_in_bounds)
next
  assume "4 \<le> length link"
  then show "shell_class (snd (OpenLink os link s)) =
      Some (if 4 < length link \<and> link ! 4 = of_char CHR ''s'' then L ''https'' else L ''http'')"
    by (simp add: shell_class_OpenLink unchecked_at_in_bounds)
next
  have "unchecked_at os (L ''http://example.com'') 4 = of_char CHR '':''"
    by (simp add: unchecked_at_in_bounds L_def)
  then show "shell_class (snd (OpenLink os (L ''http://example.com'') s)) = Some (L ''http'')"
    by (simp add: shell_class_OpenLink)
next
  have "unchecked_at os (L ''https://example.com'') 4 = of_char CHR ''s''"
    by (simp add: unchecked_at_in_bounds L_def)
  then show "shell_class (snd (OpenLink os (L ''https://example.com'') s)) = Some (L ''https'')"
    by (simp add: shell_class_OpenLink)
qed

text \<open>
  Claim C5 at concrete inputs: a URL of more than four characters, and one of exactly
  four.
\<close>

theorem OpenLink_class_witness:
  "fst (OpenLink os_ok (L ''https://github.com'') w0) = None
   \<and> shell_class (snd (OpenLink os_ok (L ''https://github.com'') w0)) = Some (L ''https'')
   \<and> fst (OpenLink os_ok (L ''http'') w0) = None
   \<and> shell_class (snd (OpenLink os_ok (L ''http'') w0)) = Some (L ''http'')"
  using OpenLink_class [of os_ok "L ''https://github.com''" w0]
    OpenLink_class [of os_ok "L ''http''" w0]
  by (simp add: L_def)

text \<open>
  Claim C8: \<^verbatim>\<open>OpenLink\<close> reads index 4 unchecked. The read is outside the string
  exactly for the URLs shorter than four characters, and the class then depends on
  what the memory behind the string holds; on a URL of exactly four characters the
  read yields the null character, and the class is \<^verbatim>\<open>http\<close>.
\<close>

theorem OpenLink_index_precondition:
  "(fst (OpenLink os link s) = Some OutOfBounds \<longleftrightarrow> length link < 4)
   \<and> (wstring_at link 4 = Inl OutOfBounds \<longleftrightarrow> length link < 4)
   \<and> (length link = 4 \<longrightarrow>
        wstring_at link 4 = Inr 0
        \<and> shell_class (snd (OpenLink os link s)) = Some (L ''http''))
   \<and> (length link < 4 \<longrightarrow>
        shell_class (snd (OpenLink os link s)) =
          Some (if memory_past_end os link 4 = of_char CHR ''s''
                then L ''https'' else L ''http''))"
proof (intro conjI impI)
  show "fst (OpenLink os link s) = Some OutOfBounds \<longleftrightarrow> length link < 4"
    by (simp add: fst_OpenLink)
next
  show "wstring_at link 4 = Inl OutOfBounds \<longleftrightarrow> length link < 4"
    by (auto simp: wstring_at_def)
next
  assume "length link = 4"
  then show "wstring_at link 4 = Inr 0"
    by (simp add: wstring_at_def)
next
  assume "length link = 4"
  then show "shell_class (snd (OpenLink os link s)) = Some (L ''http'')"
    by (simp add: shell_class_OpenLink unchecked_at_in_bounds L_def)
next
  assume "length link < 4"
  then show "shell_class (snd (OpenLink os link s)) =
      Some (if memory_past_end os link 4 = of_char CHR ''s'' then L ''https'' else L ''http'')"
    by (simp add: shell_class_OpenLink unchecked_at_short)
qed

text \<open>
  Claim C8 at concrete inputs: a URL of three characters, on a system with clean
  memory and on one with a stale \<^verbatim>\<open>s\<close> behind the string, a full URL, and one of
  four characters.
\<close>

theorem OpenLink_index_precondition_witness:
  "fst (OpenLink os_ok (L ''ftp'') w0) = Some OutOfBounds
   \<and> shell_class (snd (OpenLink os_ok (L ''ftp'') w0)) = Some (L ''http'')
   \<and> shell_class (snd (OpenLink os_stale (L ''ftp'') w0)) = Some (L ''https'')
   \<and> fst (OpenLink os_ok (L ''http://example.com'') w0) \<noteq> Some OutOfBounds
   \<and> wstring_at (L ''http'') 4 = Inr 0
   \<and> shell_class (snd (OpenLink os_ok (L ''http'') w0)) = Some (L ''http'')"
proof -
  have "memory_past_end os_ok link n = 0" "memory_past_end os_stale link n = of_char CHR ''s''"
    for link n
    by (simp_all add: os_ok_def os_stale_def)
  then show ?thesis
    using OpenLink_index_precondition [of os_ok "L ''ftp''" w0]
      OpenLink_index_precondition [of os_stale "L ''ftp''" w0]
      OpenLink_index_precondition [of os_ok "L ''http://example.com''" w0]
      OpenLink_index_precondition [of os_ok "L ''http''" w0]
    by (simp add: L_def)
qed

section \<open>The clipboard\<close>

text \<open>
  Once the clipboard is open and emptied and the memory is allocated and locked, the
  calls made do not depend on the answer of \<^verbatim>\<open>SetClipboardData\<close>: the handle is
  detached before the call, and no \<^verbatim>\<open>GlobalFree\<close> follows on either path.
\<close>

lemma CopyToClipboard_trace:
  assumes "OpenClipboard os = Inr ()" "EmptyClipboard os = Inr ()"
    and "GlobalAlloc os (length text + 1) = Inr h" "GlobalLock os h = Inr ()"
  shows "calls (snd (CopyToClipboard os text s)) =
    calls s @ [Call_OpenClipboard, Call_EmptyClipboard, Call_GlobalAlloc (length text + 1),
               Call_GlobalLock h, Call_copy h text, Call_GlobalUnlock h,
               Call_SetClipboardData (Some h), Call_CloseClipboard]"
  using assms
  by (simp add: CopyToClipboard_def detach_def free_GlobalHandle_def close_ClipboardContext_def
      Let_def split: sum.splits)

text \<open>
  Claim C2 at a concrete input: the text \<^verbatim>\<open>a\<close> on a system that refuses
  \<^verbatim>\<open>SetClipboardData\<close>. The function logs at Error severity and returns false, and
  the allocation (handle 1) is not freed.
\<close>

theorem CopyToClipboard_failed_handoff:
  "CopyToClipboard os_no_handoff (L ''a'') w0 =
     (False,
      \<lparr>m_ExeLocation = [],
       sink = [\<lparr>code = 0x80070005, level = Error, message = ''Failed to copy data to clipboard.''\<rparr>],
       calls = [Call_OpenClipboard, Call_EmptyClipboard, Call_GlobalAlloc 2, Call_GlobalLock 1,
                Call_copy 1 (L ''a''), Call_GlobalUnlock 1, Call_SetClipboardData (Some 1),
                Call_CloseClipboard],
       threads = []\<rparr>)
   \<and> \<not> freed (calls (snd (CopyToClipboard os_no_handoff (L ''a'') w0))) 1"
  by (simp add: CopyToClipboard_def os_no_handoff_def os_ok_def w0_def detach_def
      free_GlobalHandle_def close_ClipboardContext_def called_def LastErrorHandle_def
      ErrorHandle_def HRESULT_FROM_WIN32_def FACILITY_WIN32_def L_def freed_def)


section \<open>The hardener\<close>

text \<open>
  What each step adds to the trace of calls and to the sink. The only entries that
  are not at Log severity come from \<^verbatim>\<open>GetExeLocation\<close>, called by the last step.
\<close>

lemma calls_install [simp]:
  "calls (install os buffer msg s) = calls s @ [Call_SetProcessMitigationPolicy buffer]"
  by (simp add: install_def Let_def split: sum.splits)

lemma sink_install [simp]:
  "sink (install os buffer msg s) = sink s @ logged (SetProcessMitigationPolicy os buffer) msg"
  by (simp add: install_def logged_def Let_def split: sum.splits)

lemma calls_harden_aslr:
  "calls (harden_aslr os s) =
     calls s @ Call_GetProcessMitigationPolicy ProcessASLRPolicy #
       (case GetProcessMitigationPolicy os of
          Inr aslr_policy \<Rightarrow>
            [Call_SetProcessMitigationPolicy
              (ASLR (aslr_policy\<lparr>EnableForceRelocateImages := True, DisallowStrippedImages := True\<rparr>))]
        | Inl e \<Rightarrow> [])"
  by (simp add: harden_aslr_def Let_def split: sum.splits)

lemma sink_harden_aslr:
  "sink (harden_aslr os s) =
     sink s @
       (case GetProcessMitigationPolicy os of
          Inr aslr_policy \<Rightarrow>
            logged (SetProcessMitigationPolicy os
              (ASLR (aslr_policy\<lparr>EnableForceRelocateImages := True, DisallowStrippedImages := True\<rparr>)))
              ''Couldn't disallow stripped images.''
        | Inl e \<Rightarrow> logged (GetProcessMitigationPolicy os) ''Couldn't get current ASLR policy.'')"
  by (simp add: harden_aslr_def logged_def Let_def split: sum.splits)

lemma calls_GetExeLocation:
  "calls (snd (GetExeLocation os s)) =
     calls s @ (if m_ExeLocation s = [] then [Call_QueryFullProcessImageName] else [])"
  by (simp add: GetExeLocation_empty_queries GetExeLocation_cached)

lemma sink_GetExeLocation:
  "sink (snd (GetExeLocation os s)) = sink s @ fatal_entries os s"
  using FAILED_HRESULT_FROM_WIN32
  by (auto simp: GetExeLocation_def GetProcessFileName_def fatal_entries_def Let_def
      SUCCEEDED_iff_not_FAILED S_OK_def FAILED_def split: sum.splits prod.splits)

lemma fatal_entries_cong:
  "m_ExeLocation s = m_ExeLocation t \<Longrightarrow> fatal_entries os s = fatal_entries os t"
  by (simp add: fatal_entries_def)

lemma fatal_entries_level:
  assumes "entry \<in> set (fatal_entries os s)"
  shows "level entry = Fatal \<and> m_ExeLocation s = []
     \<and> (\<exists>e. QueryFullProcessImageName os = Inl e \<and> e \<noteq> 0)"
proof (cases "m_ExeLocation s = []")
  case False
  with assms show ?thesis
    by (simp add: fatal_entries_def)
next
  case True
  show ?thesis
  proof (cases "QueryFullProcessImageName os")
    case (Inl e)
    with assms True show ?thesis
      by (cases "e = 0") (simp_all add: fatal_entries_def)
  next
    case (Inr p)
    with assms True show ?thesis
      by (simp add: fatal_entries_def)
  qed
qed

lemma fatal_entries_failure:
  "m_ExeLocation s = [] \<Longrightarrow> QueryFullProcessImageName os = Inl e \<Longrightarrow> e \<noteq> 0 \<Longrightarrow>
     fatal_entries os s =
       [\<lparr>code = HRESULT_FROM_WIN32 e, level = Fatal,
         message = ''Failed to determine executable location!''\<rparr>]"
  by (simp add: fatal_entries_def)

lemma calls_harden_image_load:
  "calls (harden_image_load os s) =
     calls s @ (if m_ExeLocation s = [] then [Call_QueryFullProcessImageName] else []) @
       Call_GetVolumePathName (c_str (fst (GetExeLocation os s))) #
       (case GetVolumePathName os (c_str (fst (GetExeLocation os s))) of
          Inr volumePath \<Rightarrow>
            [Call_GetDriveType volumePath,
             Call_SetProcessMitigationPolicy
               (ImageLoad \<lparr>NoRemoteImages = GetDriveType os volumePath \<noteq> DRIVE_REMOTE,
                           NoLowMandatoryLabelImages = True, PreferSystem32Images = True\<rparr>)]
        | Inl e \<Rightarrow>
            [Call_SetProcessMitigationPolicy
               (ImageLoad \<lparr>NoRemoteImages = False, NoLowMandatoryLabelImages = True,
                           PreferSystem32Images = True\<rparr>)])"
proof (cases "GetExeLocation os s")
  case (Pair exe s1)
  then have "calls s1 =
      calls s @ (if m_ExeLocation s = [] then [Call_QueryFullProcessImageName] else [])"
    using calls_GetExeLocation [of os s] by simp
  with Pair show ?thesis
    by (simp add: harden_image_load_def Let_def split: sum.splits)
qed

lemma sink_harden_image_load:
  "sink (harden_image_load os s) =
     sink s @ fatal_entries os s @
       (case GetVolumePathName os (c_str (fst (GetExeLocation os s))) of
          Inr volumePath \<Rightarrow>
            logged (SetProcessMitigationPolicy os
              (ImageLoad \<lparr>NoRemoteImages = GetDriveType os volumePath \<noteq> DRIVE_REMOTE,
                          NoLowMandatoryLabelImages = True, PreferSystem32Images = True\<rparr>))
              ''Couldn't set image load policy.''
        | Inl e \<Rightarrow>
            logged (GetVolumePathName os (c_str (fst (GetExeLocation os s))))
              ''Unable to get volume path name.'' @
            logged (SetProcessMitigationPolicy os
              (ImageLoad \<lparr>NoRemoteImages = False, NoLowMandatoryLabelImages = True,
                          PreferSystem32Images = True\<rparr>))
              ''Couldn't set image load policy.'')"
proof (cases "GetExeLocation os s")
  case (Pair exe s1)
  then have "sink s1 = sink s @ fatal_entries os s"
    using sink_GetExeLocation [of os s] by simp
  with Pair show ?thesis
    by (simp add: harden_image_load_def logged_def Let_def split: sum.splits)
qed

lemma calls_HardenProcess:
  "calls (HardenProcess os s) =
     calls s @ Call_GetProcessMitigationPolicy ProcessASLRPolicy #
       (case GetProcessMitigationPolicy os of
          Inr aslr_policy \<Rightarrow>
            [Call_SetProcessMitigationPolicy
              (ASLR (aslr_policy\<lparr>EnableForceRelocateImages := True, DisallowStrippedImages := True\<rparr>))]
        | Inl e \<Rightarrow> []) @
       [Call_SetProcessMitigationPolicy code_policy,
        Call_SetProcessMitigationPolicy handle_policy,
        Call_SetProcessMitigationPolicy extension_policy,
        Call_SetProcessMitigationPolicy signature_policy] @
       (if m_ExeLocation s = [] then [Call_QueryFullProcessImageName] else []) @
       Call_GetVolumePathName (c_str (fst (GetExeLocation os s))) #
       (case GetVolumePathName os (c_str (fst (GetExeLocation os s))) of
          Inr volumePath \<Rightarrow>
            [Call_GetDriveType volumePath,
             Call_SetProcessMitigationPolicy
               (ImageLoad \<lparr>NoRemoteImages = GetDriveType os volumePath \<noteq> DRIVE_REMOTE,
                           NoLowMandatoryLabelImages = True, PreferSystem32Images = True\<rparr>)]
        | Inl e \<Rightarrow>
            [Call_SetProcessMitigationPolicy
               (ImageLoad \<lparr>NoRemoteImages = False, NoLowMandatoryLabelImages = True,
                           PreferSystem32Images = True\<rparr>)])"
proof -
  define s5 where "s5 = harden_signature os (harden_extension os
    (harden_handle os (harden_dynamic_code os (harden_aslr os s))))"
  have cache: "m_ExeLocation s5 = m_ExeLocation s"
    by (simp add: s5_def)
  then have exe: "fst (GetExeLocation os s5) = fst (GetExeLocation os s)"
    by (rule GetExeLocation_cong)
  have "calls s5 =
     calls s @ Call_GetProcessMitigationPolicy ProcessASLRPolicy #
       (case GetProcessMitigationPolicy os of
          Inr aslr_policy \<Rightarrow>
            [Call_SetProcessMitigationPolicy
              (ASLR (aslr_policy\<lparr>EnableForceRelocateImages := True, DisallowStrippedImages := True\<rparr>))]
        | Inl e \<Rightarrow> []) @
       [Call_SetProcessMitigationPolicy code_policy,
        Call_SetProcessMitigationPolicy handle_policy,
        Call_SetProcessMitigationPolicy extension_policy,
        Call_SetProcessMitigationPolicy signature_policy]"
    by (simp add: s5_def harden_signature_def harden_extension_def harden_handle_def
        harden_dynamic_code_def calls_harden_aslr)
  moreover have "HardenProcess os s = harden_image_load os s5"
    by (simp add: HardenProcess_def s5_def)
  ultimately show ?thesis
    by (simp add: calls_harden_image_load cache exe)
qed

lemma sink_HardenProcess:
  "sink (HardenProcess os s) =
     sink s @
       (case GetProcessMitigationPolicy os of
          Inr aslr_policy \<Rightarrow>
            logged (SetProcessMitigationPolicy os
              (ASLR (aslr_policy\<lparr>EnableForceRelocateImages := True, DisallowStrippedImages := True\<rparr>)))
              ''Couldn't disallow stripped images.''
        | Inl e \<Rightarrow> logged (GetProcessMitigationPolicy os) ''Couldn't get current ASLR policy.'') @
       logged (SetProcessMitigationPolicy os code_policy)
         ''Couldn't disable dynamic code generation.'' @
       logged (SetProcessMitigationPolicy os handle_policy)
         ''Couldn't enable strict handle checks.'' @
       logged (SetProcessMitigationPolicy os extension_policy)
         ''Couldn't disable extension point DLLs.'' @
       logged (SetProcessMitigationPolicy os signature_policy)
         ''Couldn't enable image signature enforcement.'' @
       fatal_entries os s @
       (case GetVolumePathName os (c_str (fst (GetExeLocation os s))) of
          Inr volumePath \<Rightarrow>
            logged (SetProcessMitigationPolicy os
              (ImageLoad \<lparr>NoRemoteImages = GetDriveType os volumePath \<noteq> DRIVE_REMOTE,
                          NoLowMandatoryLabelImages = True, PreferSystem32Images = True\<rparr>))
              ''Couldn't set image load policy.''
        | Inl e \<Rightarrow>
            logged (GetVolumePathName os (c_str (fst (GetExeLocation os s))))
              ''Unable to get volume path name.'' @
            logged (SetProcessMitigationPolicy os
              (ImageLoad \<lparr>NoRemoteImages = False, NoLowMandatoryLabelImages = True,
                          PreferSystem32Images = True\<rparr>))
              ''Couldn't set image load policy.'')"
proof -
  define s5 where "s5 = harden_signature os (harden_extension os
    (harden_handle os (harden_dynamic_code os (harden_aslr os s))))"
  have cache: "m_ExeLocation s5 = m_ExeLocation s"
    by (simp add: s5_def)
  then have exe: "fst (GetExeLocation os s5) = fst (GetExeLocation os s)"
    by (rule GetExeLocation_cong)
  have five: "sink s5 =
     sink s @
       (case GetProcessMitigationPolicy os of
          Inr aslr_policy \<Rightarrow>
            logged (SetProcessMitigationPolicy os
              (ASLR (aslr_policy\<lparr>EnableForceRelocateImages := True, DisallowStrippedImages := True\<rparr>)))
              ''Couldn't disallow stripped images.''
        | Inl e \<Rightarrow> logged (GetProcessMitigationPolicy os) ''Couldn't get current ASLR policy.'') @
       logged (SetProcessMitigationPolicy os code_policy)
         ''Couldn't disable dynamic code generation.'' @
       logged (SetProcessMitigationPolicy os handle_policy)
         ''Couldn't enable strict handle checks.'' @
       logged (SetProcessMitigationPolicy os extension_policy)
         ''Couldn't disable extension point DLLs.'' @
       logged (SetProcessMitigationPolicy os signature_policy)
         ''Couldn't enable image signature enforcement.''"
    by (simp add: s5_def harden_signature_def harden_extension_def harden_handle_def
        harden_dynamic_code_def sink_harden_aslr)
  have last_step: "HardenProcess os s = harden_image_load os s5"
    by (simp add: HardenProcess_def s5_def)
  have fatal: "fatal_entries os s5 = fatal_entries os s"
    using cache by (rule fatal_entries_cong)
  show ?thesis
    using sink_harden_image_load [of os s5]
    unfolding last_step exe fatal five by simp
qed

lemma new_calls_append [simp]: "calls s' = calls s @ cs \<Longrightarrow> new_calls s s' = cs"
  by (simp add: new_calls_def)

lemma new_sink_append [simp]: "sink s' = sink s @ es \<Longrightarrow> new_sink s s' = es"
  by (simp add: new_sink_def)

lemma policy_of_buffers [simp]:
  "policy_of code_policy = ProcessDynamicCodePolicy"
  "policy_of handle_policy = ProcessStrictHandleCheckPolicy"
  "policy_of extension_policy = ProcessExtensionPointDisablePolicy"
  "policy_of signature_policy = ProcessSignaturePolicy"
  by (simp_all add: code_policy_def handle_policy_def extension_policy_def signature_policy_def)

lemma HardenProcess_steps:
  "steps (new_calls s (HardenProcess os s)) =
     [ProcessASLRPolicy, ProcessDynamicCodePolicy, ProcessStrictHandleCheckPolicy,
      ProcessExtensionPointDisablePolicy, ProcessSignaturePolicy, ProcessImageLoadPolicy]"
  by (simp add: new_calls_append [OF calls_HardenProcess] steps_def map_filter_simps
      split: sum.splits)

lemma HardenProcess_installs:
  "map policy_of (installs (new_calls s (HardenProcess os s))) =
     (case GetProcessMitigationPolicy os of Inr _ \<Rightarrow> [ProcessASLRPolicy] | Inl _ \<Rightarrow> []) @
     [ProcessDynamicCodePolicy, ProcessStrictHandleCheckPolicy,
      ProcessExtensionPointDisablePolicy, ProcessSignaturePolicy, ProcessImageLoadPolicy]"
  by (simp add: new_calls_append [OF calls_HardenProcess] installs_def map_filter_simps
      split: sum.splits)

lemma HardenProcess_query_logged:
  assumes "GetProcessMitigationPolicy os = Inl e"
  shows "\<lparr>code = HRESULT_FROM_WIN32 e, level = Log, message = ''Couldn't get current ASLR policy.''\<rparr>
    \<in> set (new_sink s (HardenProcess os s))"
  using sink_HardenProcess [of os s] assms
  by (auto simp: new_sink_def logged_def)

lemma HardenProcess_volume_logged:
  assumes "GetVolumePathName os (c_str (fst (GetExeLocation os s))) = Inl e"
  shows "\<lparr>code = HRESULT_FROM_WIN32 e, level = Log, message = ''Unable to get volume path name.''\<rparr>
    \<in> set (new_sink s (HardenProcess os s))"
  using sink_HardenProcess [of os s] assms
  by (auto simp: new_sink_def logged_def)

lemma logged_failure:
  "answer = Inl e \<Longrightarrow>
     \<lparr>code = HRESULT_FROM_WIN32 e, level = Log, message = msg\<rparr> \<in> set (logged answer msg)"
  by (simp add: logged_def)

lemma level_logged: "entry \<in> set (logged answer msg) \<Longrightarrow> level entry = Log"
  by (auto simp: logged_def split: sum.splits)

lemma HardenProcess_logs_installs:
  "set (logged (SetProcessMitigationPolicy os code_policy)
      ''Couldn't disable dynamic code generation.'') \<subseteq> set (new_sink s (HardenProcess os s))"
  "set (logged (SetProcessMitigationPolicy os handle_policy)
      ''Couldn't enable strict handle checks.'') \<subseteq> set (new_sink s (HardenProcess os s))"
  "set (logged (SetProcessMitigationPolicy os extension_policy)
      ''Couldn't disable extension point DLLs.'') \<subseteq> set (new_sink s (HardenProcess os s))"
  "set (logged (SetProcessMitigationPolicy os signature_policy)
      ''Couldn't enable image signature enforcement.'') \<subseteq> set (new_sink s (HardenProcess os s))"
  using sink_HardenProcess [of os s] by (auto simp: new_sink_def)

lemma HardenProcess_logs_aslr:
  assumes "GetProcessMitigationPolicy os = Inr aslr_policy"
  shows "set (logged (SetProcessMitigationPolicy os
      (ASLR (aslr_policy\<lparr>EnableForceRelocateImages := True, DisallowStrippedImages := True\<rparr>)))
      ''Couldn't disallow stripped images.'') \<subseteq> set (new_sink s (HardenProcess os s))"
  using sink_HardenProcess [of os s] assms by (auto simp: new_sink_def)

lemma HardenProcess_logs_load:
  assumes "GetVolumePathName os (c_str (fst (GetExeLocation os s))) = Inr volumePath"
  shows "set (logged (SetProcessMitigationPolicy os
      (ImageLoad \<lparr>NoRemoteImages = GetDriveType os volumePath \<noteq> DRIVE_REMOTE,
                  NoLowMandatoryLabelImages = True, PreferSystem32Images = True\<rparr>))
      ''Couldn't set image load policy.'') \<subseteq> set (new_sink s (HardenProcess os s))"
  using sink_HardenProcess [of os s] assms by (auto simp: new_sink_def)

lemma HardenProcess_logs_load_default:
  assumes "GetVolumePathName os (c_str (fst (GetExeLocation os s))) = Inl e"
  shows "set (logged (SetProcessMitigationPolicy os
      (ImageLoad \<lparr>NoRemoteImages = False, NoLowMandatoryLabelImages = True,
                  PreferSystem32Images = True\<rparr>))
      ''Couldn't set image load policy.'') \<subseteq> set (new_sink s (HardenProcess os s))"
  using sink_HardenProcess [of os s] assms by (auto simp: new_sink_def)

lemma installs_HardenProcess:
  "installs (new_calls s (HardenProcess os s)) =
     (case GetProcessMitigationPolicy os of
        Inr aslr_policy \<Rightarrow>
          [ASLR (aslr_policy\<lparr>EnableForceRelocateImages := True, DisallowStrippedImages := True\<rparr>)]
      | Inl e \<Rightarrow> []) @
     [code_policy, handle_policy, extension_policy, signature_policy,
      case GetVolumePathName os (c_str (fst (GetExeLocation os s))) of
        Inr volumePath \<Rightarrow>
          ImageLoad \<lparr>NoRemoteImages = GetDriveType os volumePath \<noteq> DRIVE_REMOTE,
                     NoLowMandatoryLabelImages = True, PreferSystem32Images = True\<rparr>
      | Inl e \<Rightarrow>
          ImageLoad \<lparr>NoRemoteImages = False, NoLowMandatoryLabelImages = True,
                     PreferSystem32Images = True\<rparr>]"
  by (simp add: new_calls_append [OF calls_HardenProcess] installs_def map_filter_simps
      split: sum.splits)

lemma HardenProcess_install_logged:
  assumes "buffer \<in> set (installs (new_calls s (HardenProcess os s)))"
    and "SetProcessMitigationPolicy os buffer = Inl e"
  shows "\<exists>msg. \<lparr>code = HRESULT_FROM_WIN32 e, level = Log, message = msg\<rparr>
    \<in> set (new_sink s (HardenProcess os s))"
proof -
  have "\<exists>msg. set (logged (SetProcessMitigationPolicy os buffer) msg)
      \<subseteq> set (new_sink s (HardenProcess os s))"
  proof -
    consider (aslr) aslr_policy where "GetProcessMitigationPolicy os = Inr aslr_policy"
        "buffer = ASLR (aslr_policy\<lparr>EnableForceRelocateImages := True, DisallowStrippedImages := True\<rparr>)"
      | (code) "buffer = code_policy"
      | (handle) "buffer = handle_policy"
      | (extension) "buffer = extension_policy"
      | (signature) "buffer = signature_policy"
      | (load) volumePath where
          "GetVolumePathName os (c_str (fst (GetExeLocation os s))) = Inr volumePath"
          "buffer = ImageLoad \<lparr>NoRemoteImages = GetDriveType os volumePath \<noteq> DRIVE_REMOTE,
                     NoLowMandatoryLabelImages = True, PreferSystem32Images = True\<rparr>"
      | (load_default) e' where
          "GetVolumePathName os (c_str (fst (GetExeLocation os s))) = Inl e'"
          "buffer = ImageLoad \<lparr>NoRemoteImages = False, NoLowMandatoryLabelImages = True,
                     PreferSystem32Images = True\<rparr>"
      using assms(1) unfolding installs_HardenProcess
      by (cases "GetProcessMitigationPolicy os";
          cases "GetVolumePathName os (c_str (fst (GetExeLocation os s)))") auto
    then show ?thesis
    proof cases
      case aslr
      then show ?thesis using HardenProcess_logs_aslr [of os aslr_policy s] by blast
    next
      case code
      then show ?thesis using HardenProcess_logs_installs(1) [of os s] by blast
    next
      case handle
      then show ?thesis using HardenProcess_logs_installs(2) [of os s] by blast
    next
      case extension
      then show ?thesis using HardenProcess_logs_installs(3) [of os s] by blast
    next
      case signature
      then show ?thesis using HardenProcess_logs_installs(4) [of os s] by blast
    next
      case load
      then show ?thesis using HardenProcess_logs_load [of os s volumePath] by blast
    next
      case load_default
      then show ?thesis using HardenProcess_logs_load_default [of os s e'] by blast
    qed
  qed
  then show ?thesis
    using logged_failure [OF assms(2)] by blast
qed

lemma HardenProcess_levels:
  "\<forall>entry \<in> set (new_sink s (HardenProcess os s)).
     level entry = Log
     \<or> level entry = Fatal \<and> m_ExeLocation s = []
       \<and> (\<exists>e. QueryFullProcessImageName os = Inl e \<and> e \<noteq> 0)"
  using sink_HardenProcess [of os s]
  by (auto simp: new_sink_def dest: level_logged fatal_entries_level split: sum.splits)

lemma HardenProcess_fatal_logged:
  assumes "m_ExeLocation s = []" "QueryFullProcessImageName os = Inl e" "e \<noteq> 0"
  shows "\<lparr>code = HRESULT_FROM_WIN32 e, level = Fatal,
      message = ''Failed to determine executable location!''\<rparr>
    \<in> set (new_sink s (HardenProcess os s))"
  using sink_HardenProcess [of os s] fatal_entries_failure [OF assms]
  by (simp add: new_sink_def)

lemma os_hostile_simps:
  "QueryFullProcessImageName os_hostile = Inl 5"
  "GetProcessMitigationPolicy os_hostile = Inl 5"
  "SetProcessMitigationPolicy os_hostile buffer = Inl 5"
  "GetVolumePathName os_hostile path = Inl 5"
  by (simp_all add: os_hostile_def)

lemma HRESULT_FROM_WIN32_5: "HRESULT_FROM_WIN32 5 = 0x80070005"
  by (simp add: HRESULT_FROM_WIN32_def FACILITY_WIN32_def)

text \<open>
  Claim C1, as the code has it. Whatever the operating system answers,
  \<^verbatim>\<open>HardenProcess\<close> works on exactly six policies in the order ASLR, dynamic code,
  strict handle checks, extension points, image signature, image load. The five
  installs after the ASLR step are always made; the ASLR install is made when the ASLR
  query succeeds. A failed ASLR query, every failed install and a failed volume query
  are each logged at Log severity with the error code of the failure. Every entry that
  reaches the sink is at Log severity, with one exception: when the path of the
  executable is not cached yet and the query for it fails, the call of
  \<^verbatim>\<open>GetExeLocation\<close> in the last step logs that failure at Fatal severity. The
  function has no result and no failure of its own: it returns the state it reached.
\<close>

theorem HardenProcess_best_effort:
  "steps (new_calls s (HardenProcess os s)) =
     [ProcessASLRPolicy, ProcessDynamicCodePolicy, ProcessStrictHandleCheckPolicy,
      ProcessExtensionPointDisablePolicy, ProcessSignaturePolicy, ProcessImageLoadPolicy]
   \<and> map policy_of (installs (new_calls s (HardenProcess os s))) =
       (case GetProcessMitigationPolicy os of Inr _ \<Rightarrow> [ProcessASLRPolicy] | Inl _ \<Rightarrow> []) @
       [ProcessDynamicCodePolicy, ProcessStrictHandleCheckPolicy,
        ProcessExtensionPointDisablePolicy, ProcessSignaturePolicy, ProcessImageLoadPolicy]
   \<and> (GetProcessMitigationPolicy os = Inl e \<longrightarrow>
        \<lparr>code = HRESULT_FROM_WIN32 e, level = Log,
         message = ''Couldn't get current ASLR policy.''\<rparr>
          \<in> set (new_sink s (HardenProcess os s)))
   \<and> (buffer \<in> set (installs (new_calls s (HardenProcess os s))) \<longrightarrow>
      SetProcessMitigationPolicy os buffer = Inl e' \<longrightarrow>
        (\<exists>msg. \<lparr>code = HRESULT_FROM_WIN32 e', level = Log, message = msg\<rparr>
           \<in> set (new_sink s (HardenProcess os s))))
   \<and> (GetVolumePathName os (c_str (fst (GetExeLocation os s))) = Inl e'' \<longrightarrow>
        \<lparr>code = HRESULT_FROM_WIN32 e'', level = Log,
         message = ''Unable to get volume path name.''\<rparr>
          \<in> set (new_sink s (HardenProcess os s)))
   \<and> (\<forall>entry \<in> set (new_sink s (HardenProcess os s)).
        level entry = Log
        \<or> level entry = Fatal \<and> m_ExeLocation s = []
          \<and> (\<exists>e. QueryFullProcessImageName os = Inl e \<and> e \<noteq> 0))
   \<and> (m_ExeLocation s = [] \<longrightarrow> QueryFullProcessImageName os = Inl q \<longrightarrow> q \<noteq> 0 \<longrightarrow>
        \<lparr>code = HRESULT_FROM_WIN32 q, level = Fatal,
         message = ''Failed to determine executable location!''\<rparr>
          \<in> set (new_sink s (HardenProcess os s)))"
  using HardenProcess_steps [of s os] HardenProcess_installs [of s os]
    HardenProcess_query_logged [of os e s] HardenProcess_install_logged [of buffer s os e']
    HardenProcess_volume_logged [of os s e''] HardenProcess_levels [of s os]
    HardenProcess_fatal_logged [of s os q]
  by blast

text \<open>
  Claim C1 at concrete inputs. On a system that refuses every query and every
  install, all six steps are still reached, the five installs that need no query are
  made, and each failure is logged. On a system that refuses nothing but the query
  for the path of the executable, that path being cached already, nothing reaches the
  sink.
\<close>

theorem HardenProcess_best_effort_witness:
  "steps (new_calls w0 (HardenProcess os_hostile w0)) =
     [ProcessASLRPolicy, ProcessDynamicCodePolicy, ProcessStrictHandleCheckPolicy,
      ProcessExtensionPointDisablePolicy, ProcessSignaturePolicy, ProcessImageLoadPolicy]
   \<and> map policy_of (installs (new_calls w0 (HardenProcess os_hostile w0))) =
       [ProcessDynamicCodePolicy, ProcessStrictHandleCheckPolicy,
        ProcessExtensionPointDisablePolicy, ProcessSignaturePolicy, ProcessImageLoadPolicy]
   \<and> \<lparr>code = 0x80070005, level = Log, message = ''Couldn't get current ASLR policy.''\<rparr>
        \<in> set (new_sink w0 (HardenProcess os_hostile w0))
   \<and> (\<exists>msg. \<lparr>code = 0x80070005, level = Log, message = msg\<rparr>
          \<in> set (new_sink w0 (HardenProcess os_hostile w0)))
   \<and> \<lparr>code = 0x80070005, level = Log, message = ''Unable to get volume path name.''\<rparr>
        \<in> set (new_sink w0 (HardenProcess os_hostile w0))
   \<and> \<lparr>code = 0x80070005, level = Fatal, message = ''Failed to determine executable location!''\<rparr>
        \<in> set (new_sink w0 (HardenProcess os_hostile w0))
   \<and> level ` set (new_sink w0 (HardenProcess os_hostile w0)) \<subseteq> {Log, Fatal}
   \<and> level ` set (new_sink (w0\<lparr>m_ExeLocation := L ''C:/ttb.exe''\<rparr>)
        (HardenProcess os_hostile (w0\<lparr>m_ExeLocation := L ''C:/ttb.exe''\<rparr>))) \<subseteq> {Log}"
proof -
  have "signature_policy \<in> set (installs (new_calls w0 (HardenProcess os_hostile w0)))"
    by (simp add: installs_HardenProcess)
  moreover have "L ''C:/ttb.exe'' \<noteq> []"
    by (simp add: L_def)
  ultimately show ?thesis
    using HardenProcess_best_effort [of w0 os_hostile 5 signature_policy 5 5 5]
      HardenProcess_best_effort [of "w0\<lparr>m_ExeLocation := L ''C:/ttb.exe''\<rparr>" os_hostile]
    by (auto simp: os_hostile_simps HRESULT_FROM_WIN32_5 w0_simps)
qed

text \<open>
  Claim C1 as stated fails: not every failure inside \<^verbatim>\<open>HardenProcess\<close> is logged at
  Log severity. On a fresh process, with every policy call succeeding and only the
  query for the path of the executable refused, the one entry that reaches the sink
  is at Fatal severity.
\<close>

theorem HardenProcess_fatal_counterexample:
  "new_sink w0 (HardenProcess os_no_image_name w0) =
     [\<lparr>code = 0x80070005, level = Fatal, message = ''Failed to determine executable location!''\<rparr>]"
proof -
  have volume: "GetVolumePathName os_no_image_name p = Inr (L ''C:/'')" for p
    by (simp add: os_no_image_name_def os_ok_def)
  have installs: "SetProcessMitigationPolicy os_no_image_name b = Inr ()" for b
    by (simp add: os_no_image_name_def os_ok_def)
  have query: "\<exists>p. GetProcessMitigationPolicy os_no_image_name = Inr p"
    by (simp add: os_no_image_name_def os_ok_def)
  have "fatal_entries os_no_image_name w0 =
      [\<lparr>code = 0x80070005, level = Fatal, message = ''Failed to determine executable location!''\<rparr>]"
    by (simp add: fatal_entries_def w0_simps os_no_image_name_query HRESULT_FROM_WIN32_5)
  then show ?thesis
    using query
    by (auto simp: new_sink_append [OF sink_HardenProcess] volume installs logged_def)
qed

text \<open>
  Claim C7: the last call of \<^verbatim>\<open>HardenProcess\<close> installs the image load policy with
  \<^verbatim>\<open>NoLowMandatoryLabelImages\<close> and \<^verbatim>\<open>PreferSystem32Images\<close> set.
  \<^verbatim>\<open>NoRemoteImages\<close> is set exactly when the volume of the executable resolves and
  its drive type is not \<^verbatim>\<open>DRIVE_REMOTE\<close>. When the volume does not resolve, the
  failure is logged at Log severity, the field keeps its initial value false, and the
  install is made all the same.
\<close>

theorem HardenProcess_image_load:
  "\<exists>load_policy.
     last (calls (HardenProcess os s)) = Call_SetProcessMitigationPolicy (ImageLoad load_policy)
     \<and> NoLowMandatoryLabelImages load_policy
     \<and> PreferSystem32Images load_policy
     \<and> (NoRemoteImages load_policy \<longleftrightarrow>
          (\<exists>volumePath.
             GetVolumePathName os (c_str (fst (GetExeLocation os s))) = Inr volumePath
             \<and> GetDriveType os volumePath \<noteq> DRIVE_REMOTE))
     \<and> (\<forall>e. GetVolumePathName os (c_str (fst (GetExeLocation os s))) = Inl e \<longrightarrow>
          \<not> NoRemoteImages load_policy
          \<and> \<lparr>code = HRESULT_FROM_WIN32 e, level = Log,
              message = ''Unable to get volume path name.''\<rparr>
               \<in> set (new_sink s (HardenProcess os s)))"
proof (cases "GetVolumePathName os (c_str (fst (GetExeLocation os s)))")
  case (Inl e)
  let ?load_policy = "\<lparr>NoRemoteImages = False, NoLowMandatoryLabelImages = True,
    PreferSystem32Images = True\<rparr>"
  have "last (calls (HardenProcess os s)) = Call_SetProcessMitigationPolicy (ImageLoad ?load_policy)"
    by (simp add: calls_HardenProcess Inl)
  moreover have "\<lparr>code = HRESULT_FROM_WIN32 e, level = Log,
      message = ''Unable to get volume path name.''\<rparr> \<in> set (new_sink s (HardenProcess os s))"
    using Inl by (rule HardenProcess_volume_logged)
  ultimately show ?thesis
    using Inl by (intro exI [of _ ?load_policy]) simp
next
  case (Inr volumePath)
  let ?load_policy = "\<lparr>NoRemoteImages = GetDriveType os volumePath \<noteq> DRIVE_REMOTE,
    NoLowMandatoryLabelImages = True, PreferSystem32Images = True\<rparr>"
  have "last (calls (HardenProcess os s)) = Call_SetProcessMitigationPolicy (ImageLoad ?load_policy)"
    by (simp add: calls_HardenProcess Inr)
  then show ?thesis
    using Inr by (intro exI [of _ ?load_policy]) simp
qed

text \<open>
  At concrete inputs: a local drive, a remote drive, and a volume that does not
  resolve.
\<close>

theorem HardenProcess_image_load_witness:
  "last (calls (HardenProcess os_ok w0)) =
     Call_SetProcessMitigationPolicy
       (ImageLoad \<lparr>NoRemoteImages = True, NoLowMandatoryLabelImages = True,
                   PreferSystem32Images = True\<rparr>)
   \<and> last (calls (HardenProcess os_remote w0)) =
     Call_SetProcessMitigationPolicy
       (ImageLoad \<lparr>NoRemoteImages = False, NoLowMandatoryLabelImages = True,
                   PreferSystem32Images = True\<rparr>)
   \<and> last (calls (HardenProcess os_no_volume w0)) =
     Call_SetProcessMitigationPolicy
       (ImageLoad \<lparr>NoRemoteImages = False, NoLowMandatoryLabelImages = True,
                   PreferSystem32Images = True\<rparr>)
   \<and> \<lparr>code = 0x80070005, level = Log, message = ''Unable to get volume path name.''\<rparr>
        \<in> set (new_sink w0 (HardenProcess os_no_volume w0))"
proof -
  have volumes: "GetVolumePathName os_ok p = Inr (L ''C:/'')"
    "GetVolumePathName os_remote p = Inr (L ''C:/'')"
    "GetVolumePathName os_no_volume p = Inl 5" for p
    by (simp_all add: os_ok_def os_remote_def os_no_volume_def)
  have drives: "GetDriveType os_ok v \<noteq> DRIVE_REMOTE" "GetDriveType os_remote v = DRIVE_REMOTE" for v
    by (simp_all add: os_ok_def os_remote_def DRIVE_REMOTE_def)
  have fields: "p = \<lparr>NoRemoteImages = NoRemoteImages p,
      NoLowMandatoryLabelImages = NoLowMandatoryLabelImages p,
      PreferSystem32Images = PreferSystem32Images p\<rparr>"
    for p :: PROCESS_MITIGATION_IMAGE_LOAD_POLICY
    by simp
  show ?thesis
    using HardenProcess_image_load [of os_ok w0] HardenProcess_image_load [of os_remote w0]
      HardenProcess_image_load [of os_no_volume w0]
    by (auto simp: volumes drives HRESULT_FROM_WIN32_5 intro: fields)
qed


end
